theory Spec2Isabelle
  imports Main
begin

section \<open>Per-user Knowledge Base lifecycle and document ingestion\<close>

text \<open>
  A shallow embedding of \<^verbatim>\<open>knowledge_base_manager.py\<close> (class KnowledgeBaseManager) and
  \<^verbatim>\<open>document_processor.py\<close> (class DocumentProcessor). The services the code calls
  through boto3 (DynamoDB, S3, S3 Vectors, Bedrock Agent, Lambda) are a \<open>world\<close> record
  that every operation takes and returns; what the code cannot decide by itself (whether a
  call raises, the clock, fresh identifiers, MD5) is an \<open>env\<close> record. A Python
  exception is a value \<open>Exn type message\<close> and every \<^verbatim>\<open>try/except\<close> of the source is a
  case distinction on a sum. \<^verbatim>\<open>logger.error\<close> and \<^verbatim>\<open>logger.warning\<close> lines are
  appended to the world's log; \<^verbatim>\<open>logger.info\<close> and \<^verbatim>\<open>print\<close> lines are not modelled.
\<close>

subsection \<open>Exceptions and strings\<close>

datatype exn = Exn (exn_type: string) (exn_msg: string)

text \<open>\<^verbatim>\<open>str(e)\<close> and \<^verbatim>\<open>str(type(e))\<close> of Python.\<close>

definition str_exn :: "exn \<Rightarrow> string" where
  "str_exn e = exn_msg e"

definition str_type :: "exn \<Rightarrow> string" where
  "str_type e = ''<class '' @ [CHR 0x27] @ exn_type e @ [CHR 0x27] @ ''>''"

text \<open>\<^verbatim>\<open>d['k']\<close> on a dict without the key raises KeyError, whose text is the quoted key.\<close>

definition KeyError :: "string \<Rightarrow> exn" where
  "KeyError k = Exn ''KeyError'' ([CHR 0x27] @ k @ [CHR 0x27])"

text \<open>\<^verbatim>\<open>needle in haystack\<close> on strings.\<close>

fun str_in :: "string \<Rightarrow> string \<Rightarrow> bool" where
  "str_in needle [] = (needle = [])"
| "str_in needle (c # cs) = (take (length needle) (c # cs) = needle \<or> str_in needle cs)"

definition startswith :: "string \<Rightarrow> string \<Rightarrow> bool" where
  "startswith s p = (take (length p) s = p)"

text \<open>\<^verbatim>\<open>s.split(sep)\<close> for a one-character separator: the empty string splits to \<open>['']\<close>.\<close>

fun str_split :: "char \<Rightarrow> string \<Rightarrow> string list" where
  "str_split sep [] = [[]]"
| "str_split sep (c # cs) =
     (case str_split sep cs of
        [] \<Rightarrow> (if c = sep then [[], []] else [[c]])
      | p # ps \<Rightarrow> (if c = sep then [] # p # ps else (c # p) # ps))"

text \<open>\<^verbatim>\<open>s.lower()\<close>, on the ASCII letters.\<close>

definition lower_char :: "char \<Rightarrow> char" where
  "lower_char c =
     (let n = (of_char c :: nat) in if 65 \<le> n \<and> n \<le> 90 then char_of (n + 32) else c)"

definition lower :: "string \<Rightarrow> string" where
  "lower s = map lower_char s"

text \<open>\<^verbatim>\<open>str(n)\<close> for a non-negative integer.\<close>

fun str_nat :: "nat \<Rightarrow> string" where
  "str_nat n =
     (if n < 10 then [''0123456789'' ! n] else str_nat (n div 10) @ [''0123456789'' ! (n mod 10)])"

declare str_nat.simps [simp del]

text \<open>An f-string field holding an optional string prints \<open>None\<close> when it is absent.\<close>

definition str_opt :: "string option \<Rightarrow> string" where
  "str_opt v = (case v of None \<Rightarrow> ''None'' | Some s \<Rightarrow> s)"

text \<open>Python truthiness of an optional string: absent and empty are both false.\<close>

definition truthy :: "string option \<Rightarrow> bool" where
  "truthy v = (case v of None \<Rightarrow> False | Some s \<Rightarrow> s \<noteq> [])"

text \<open>\<^verbatim>\<open>a or b\<close> on optional strings.\<close>

definition py_or :: "string option \<Rightarrow> string option \<Rightarrow> string option" where
  "py_or a b = (if truthy a then a else b)"

subsection \<open>Items of the two DynamoDB tables\<close>

text \<open>
  A DynamoDB item is a dict; apart from the key every attribute may be missing
  (\<^verbatim>\<open>update_item\<close> on a key that has no item creates one holding only the attributes
  it sets), so every attribute but the key is an option.
\<close>

record document =
  document_id :: string
  user_id :: "string option"
  s3_key :: "string option"
  s3Key :: "string option"
  filename :: "string option"
  file_size :: "nat option"
  content_type :: "string option"
  knowledge_base_id :: "string option"
  data_source_id :: "string option"
  upload_date :: "string option"
  sync_status :: "string option"
  processing_attempts :: "nat option"
  last_modified :: "string option"
  message :: "string option"
  error_message :: "string option"
  ingestion_job_id :: "string option"

definition empty_document :: "string \<Rightarrow> document" where
  "empty_document k =
     \<lparr>document_id = k, user_id = None, s3_key = None, s3Key = None, filename = None,
      file_size = None, content_type = None, knowledge_base_id = None,
      data_source_id = None, upload_date = None, sync_status = None,
      processing_attempts = None, last_modified = None, message = None,
      error_message = None, ingestion_job_id = None\<rparr>"

text \<open>
  The item of the user Knowledge Base table, keyed by \<open>user_id\<close>; the same record is
  the dict \<^verbatim>\<open>_create_user_kb\<close> returns, which holds four of the keys.
\<close>

record user_kb =
  kb_user_id :: "string option"
  kb_knowledge_base_id :: "string option"
  kb_data_source_id :: "string option"
  vector_bucket_name :: "string option"
  vector_index_name :: "string option"
  kb_name :: "string option"
  user_hash :: "string option"
  created_at :: "string option"
  status :: "string option"
  document_count :: "int option"
  storage_type :: "string option"

definition empty_user_kb :: user_kb where
  "empty_user_kb =
     \<lparr>kb_user_id = None, kb_knowledge_base_id = None, kb_data_source_id = None,
      vector_bucket_name = None, vector_index_name = None, kb_name = None,
      user_hash = None, created_at = None, status = None, document_count = None,
      storage_type = None\<rparr>"

subsection \<open>The world and the environment\<close>

record s3_object =
  body :: string
  ContentType :: string
  Metadata :: "(string \<times> string) list"

text \<open>
  An ingestion job as the provider holds it; the code reads the id and the status of a
  listed job and nothing else.
\<close>

record ingestion_job =
  ingestionJobId :: string
  job_knowledgeBaseId :: string
  job_dataSourceId :: string
  job_status :: string
  job_description :: string
  failureReasons :: "string list"

text \<open>The payload of a Lambda invocation of the Knowledge Base manager.\<close>

record kb_event =
  operation :: string
  ev_user_id :: string
  ev_document_id :: "string option"
  ev_filename :: "string option"
  ev_temp_s3_key :: "string option"

datatype log_entry = LogError string | LogWarning string

record data_source =
  dataSourceId :: string
  ds_knowledgeBaseId :: string
  ds_name :: string
  inclusionPrefixes :: "string list"

record world =
  documents_table :: "document list"
  user_kb_table :: "user_kb list"
  documents_bucket :: "(string \<times> s3_object) list"
  vector_buckets :: "string list"
  vector_indexes :: "(string \<times> string) list"
  knowledge_bases :: "(string \<times> string) list"
  data_sources :: "data_source list"
  ingestion_jobs :: "ingestion_job list"
  start_ingestion_job_calls :: "(string \<times> string \<times> string) list"
  lambda_invocations :: "(string \<times> kb_event) list"
  log :: "log_entry list"

text \<open>The calls on the services; a fault of the environment is keyed by the call.\<close>

datatype aws_call =
    DocGetItem string | DocPutItem string | DocUpdateItem string | DocDeleteItem string
  | DocScan string
  | KbGetItem string | KbPutItem string | KbUpdateItem string | KbDeleteItem string
  | S3PutObject string | S3HeadObject string | S3CopyObject string string
  | S3DeleteObject string | S3ListObjectsV2 string
  | CreateVectorBucket string | CreateIndex string string | DeleteVectorBucket string
  | GetKnowledgeBase string | CreateKnowledgeBase string | CreateDataSource string
  | StartIngestionJob string string | ListIngestionJobs string string
  | LambdaInvoke string

record env =
  fault :: "aws_call \<Rightarrow> exn option"
  utcnow :: string
  time_time :: nat
  uuid4 :: string
  md5_hexdigest :: "string \<Rightarrow> string"
  new_knowledgeBaseId :: string
  new_dataSourceId :: string
  new_ingestionJobId :: "nat \<Rightarrow> string"

definition logger_error :: "string \<Rightarrow> world \<Rightarrow> world" where
  "logger_error msg w = w\<lparr>log := log w @ [LogError msg]\<rparr>"

definition logger_warning :: "string \<Rightarrow> world \<Rightarrow> world" where
  "logger_warning msg w = w\<lparr>log := log w @ [LogWarning msg]\<rparr>"

subsection \<open>DynamoDB\<close>

text \<open>
  A table is the list of its items; the key is a field of the item. \<^verbatim>\<open>put_item\<close>
  replaces the item of the same key or adds one, \<^verbatim>\<open>update_item\<close> changes the item of
  the key and creates it when there is none, \<^verbatim>\<open>delete_item\<close> of a missing key does
  nothing, \<^verbatim>\<open>scan\<close> keeps the items that pass the filter (pagination is not modelled:
  the source reads one page). Two things the store does are left out: it refuses an empty
  string as a key, where the model takes any string, and it answers a scan in an order of
  its own, where the model answers in the order of the list.
\<close>

definition table_put :: "('a \<Rightarrow> 'k) \<Rightarrow> 'a \<Rightarrow> 'a list \<Rightarrow> 'a list" where
  "table_put key x tbl =
     (if list_ex (\<lambda>y. key y = key x) tbl
      then map (\<lambda>y. if key y = key x then x else y) tbl
      else tbl @ [x])"

definition table_update :: "('a \<Rightarrow> 'k) \<Rightarrow> 'k \<Rightarrow> 'a \<Rightarrow> ('a \<Rightarrow> 'a) \<Rightarrow> 'a list \<Rightarrow> 'a list" where
  "table_update key k fresh f tbl =
     (if list_ex (\<lambda>y. key y = k) tbl
      then map (\<lambda>y. if key y = k then f y else y) tbl
      else tbl @ [f fresh])"

definition table_delete :: "('a \<Rightarrow> 'k) \<Rightarrow> 'k \<Rightarrow> 'a list \<Rightarrow> 'a list" where
  "table_delete key k tbl = filter (\<lambda>y. key y \<noteq> k) tbl"

definition doc_get_item :: "env \<Rightarrow> string \<Rightarrow> world \<Rightarrow> exn + document option" where
  "doc_get_item e k w =
     (case fault e (DocGetItem k) of
        Some x \<Rightarrow> Inl x
      | None \<Rightarrow> Inr (find (\<lambda>d. document_id d = k) (documents_table w)))"

definition doc_put_item :: "env \<Rightarrow> document \<Rightarrow> world \<Rightarrow> exn + world" where
  "doc_put_item e d w =
     (case fault e (DocPutItem (document_id d)) of
        Some x \<Rightarrow> Inl x
      | None \<Rightarrow> Inr (w\<lparr>documents_table := table_put document_id d (documents_table w)\<rparr>))"

definition doc_update_item :: "env \<Rightarrow> string \<Rightarrow> (document \<Rightarrow> document) \<Rightarrow> world \<Rightarrow> exn + world" where
  "doc_update_item e k f w =
     (case fault e (DocUpdateItem k) of
        Some x \<Rightarrow> Inl x
      | None \<Rightarrow>
          Inr (w\<lparr>documents_table :=
                   table_update document_id k (empty_document k) f (documents_table w)\<rparr>))"

definition doc_delete_item :: "env \<Rightarrow> string \<Rightarrow> world \<Rightarrow> exn + world" where
  "doc_delete_item e k w =
     (case fault e (DocDeleteItem k) of
        Some x \<Rightarrow> Inl x
      | None \<Rightarrow> Inr (w\<lparr>documents_table := table_delete document_id k (documents_table w)\<rparr>))"

text \<open>
  The two scans of \<^verbatim>\<open>check_ingestion_status\<close> share the filter expression
  \<^verbatim>\<open>ingestion_job_id = :job_id AND sync_status IN (...)\<close>; an item without one of the two
  attributes does not pass. The fault of a scan is keyed by the job id.
\<close>

definition filter_expression :: "string \<Rightarrow> string list \<Rightarrow> document \<Rightarrow> bool" where
  "filter_expression job_id statuses d =
     (ingestion_job_id d = Some job_id \<and>
      (case sync_status d of None \<Rightarrow> False | Some s \<Rightarrow> s \<in> set statuses))"

definition doc_scan :: "env \<Rightarrow> string \<Rightarrow> string list \<Rightarrow> world \<Rightarrow> exn + document list" where
  "doc_scan e job_id statuses w =
     (case fault e (DocScan job_id) of
        Some x \<Rightarrow> Inl x
      | None \<Rightarrow> Inr (filter (filter_expression job_id statuses) (documents_table w)))"

definition kb_get_item :: "env \<Rightarrow> string \<Rightarrow> world \<Rightarrow> exn + user_kb option" where
  "kb_get_item e k w =
     (case fault e (KbGetItem k) of
        Some x \<Rightarrow> Inl x
      | None \<Rightarrow> Inr (find (\<lambda>i. kb_user_id i = Some k) (user_kb_table w)))"

definition kb_put_item :: "env \<Rightarrow> string \<Rightarrow> user_kb \<Rightarrow> world \<Rightarrow> exn + world" where
  "kb_put_item e k i w =
     (case fault e (KbPutItem k) of
        Some x \<Rightarrow> Inl x
      | None \<Rightarrow> Inr (w\<lparr>user_kb_table := table_put kb_user_id i (user_kb_table w)\<rparr>))"

definition kb_delete_item :: "env \<Rightarrow> string \<Rightarrow> world \<Rightarrow> exn + world" where
  "kb_delete_item e k w =
     (case fault e (KbDeleteItem k) of
        Some x \<Rightarrow> Inl x
      | None \<Rightarrow> Inr (w\<lparr>user_kb_table := table_delete kb_user_id (Some k) (user_kb_table w)\<rparr>))"

text \<open>
  \<^verbatim>\<open>update_item(Key={'user_id': k}, UpdateExpression='ADD document_count :count')\<close>:
  a missing attribute counts as zero.
\<close>

definition add_document_count :: "int \<Rightarrow> user_kb \<Rightarrow> user_kb" where
  "add_document_count n i =
     i\<lparr>document_count := Some ((case document_count i of None \<Rightarrow> 0 | Some c \<Rightarrow> c) + n)\<rparr>"

definition kb_update_item_add :: "env \<Rightarrow> string \<Rightarrow> int \<Rightarrow> world \<Rightarrow> exn + world" where
  "kb_update_item_add e k n w =
     (case fault e (KbUpdateItem k) of
        Some x \<Rightarrow> Inl x
      | None \<Rightarrow>
          Inr (w\<lparr>user_kb_table :=
                   table_update kb_user_id (Some k) (empty_user_kb\<lparr>kb_user_id := Some k\<rparr>)
                     (add_document_count n) (user_kb_table w)\<rparr>))"

subsection \<open>S3, the documents bucket\<close>

definition s3_put_object :: "env \<Rightarrow> string \<Rightarrow> s3_object \<Rightarrow> world \<Rightarrow> exn + world" where
  "s3_put_object e k obj w =
     (case fault e (S3PutObject k) of
        Some x \<Rightarrow> Inl x
      | None \<Rightarrow> Inr (w\<lparr>documents_bucket := table_put fst (k, obj) (documents_bucket w)\<rparr>))"

text \<open>
  \<^verbatim>\<open>copy_object\<close> of a key that is not there raises NoSuchKey, which is the class
  \<^verbatim>\<open>s3.exceptions.NoSuchKey\<close>. \<^verbatim>\<open>head_object\<close> of a key that is not there is answered
  404 without an error code, which boto3 raises as a plain ClientError: the handlers
  \<^verbatim>\<open>except s3.exceptions.NoSuchKey\<close> do not catch it.
\<close>

definition NoSuchKey :: "string \<Rightarrow> exn" where
  "NoSuchKey k = Exn ''NoSuchKey'' (''The specified key does not exist: '' @ k)"

definition ClientError_404 :: exn where
  "ClientError_404 =
     Exn ''ClientError'' ''An error occurred (404) when calling the HeadObject operation: Not Found''"

definition s3_head_object :: "env \<Rightarrow> string \<Rightarrow> world \<Rightarrow> exn + s3_object" where
  "s3_head_object e k w =
     (case fault e (S3HeadObject k) of
        Some x \<Rightarrow> Inl x
      | None \<Rightarrow>
          (case map_of (documents_bucket w) k of
             None \<Rightarrow> Inl ClientError_404
           | Some obj \<Rightarrow> Inr obj))"

definition s3_copy_object :: "env \<Rightarrow> string \<Rightarrow> string \<Rightarrow> world \<Rightarrow> exn + world" where
  "s3_copy_object e src dst w =
     (case fault e (S3CopyObject src dst) of
        Some x \<Rightarrow> Inl x
      | None \<Rightarrow>
          (case map_of (documents_bucket w) src of
             None \<Rightarrow> Inl (NoSuchKey src)
           | Some obj \<Rightarrow>
               Inr (w\<lparr>documents_bucket := table_put fst (dst, obj) (documents_bucket w)\<rparr>)))"

text \<open>\<^verbatim>\<open>delete_object\<close> of a key that is not there succeeds.\<close>

definition s3_delete_object :: "env \<Rightarrow> string \<Rightarrow> world \<Rightarrow> exn + world" where
  "s3_delete_object e k w =
     (case fault e (S3DeleteObject k) of
        Some x \<Rightarrow> Inl x
      | None \<Rightarrow> Inr (w\<lparr>documents_bucket := table_delete fst k (documents_bucket w)\<rparr>))"

text \<open>
  \<^verbatim>\<open>list_objects_v2(Prefix=p)\<close>: the keys of one page (at most 1000), which is all the
  source reads; \<^verbatim>\<open>response.get('Contents', [])\<close> is the empty list when none matches.
  The keys come in the order of the model's list, where S3 answers them sorted.
\<close>

definition s3_list_objects_v2 :: "env \<Rightarrow> string \<Rightarrow> world \<Rightarrow> exn + string list" where
  "s3_list_objects_v2 e p w =
     (case fault e (S3ListObjectsV2 p) of
        Some x \<Rightarrow> Inl x
      | None \<Rightarrow> Inr (take 1000 (filter (\<lambda>k. startswith k p) (map fst (documents_bucket w)))))"

subsection \<open>Bedrock Agent and S3 Vectors\<close>

definition ResourceNotFoundException :: "string \<Rightarrow> exn" where
  "ResourceNotFoundException k =
     Exn ''ResourceNotFoundException'' (''Knowledge base not found: '' @ k)"

definition get_knowledge_base :: "env \<Rightarrow> string \<Rightarrow> world \<Rightarrow> exn + unit" where
  "get_knowledge_base e kb_id w =
     (case fault e (GetKnowledgeBase kb_id) of
        Some x \<Rightarrow> Inl x
      | None \<Rightarrow>
          (if kb_id \<in> set (map fst (knowledge_bases w)) then Inr ()
           else Inl (ResourceNotFoundException kb_id)))"

text \<open>
  \<^verbatim>\<open>start_ingestion_job\<close>: every call is recorded, whether or not it succeeds; a
  successful call adds a job to the provider's list and answers its fresh id.
\<close>

definition start_ingestion_job ::
    "env \<Rightarrow> string \<Rightarrow> string \<Rightarrow> string \<Rightarrow> world \<Rightarrow> (exn + string) \<times> world" where
  "start_ingestion_job e kb_id ds_id descr w =
     (let w1 = w\<lparr>start_ingestion_job_calls :=
                   start_ingestion_job_calls w @ [(kb_id, ds_id, descr)]\<rparr>
      in case fault e (StartIngestionJob kb_id ds_id) of
           Some x \<Rightarrow> (Inl x, w1)
         | None \<Rightarrow>
             (let job_id = new_ingestionJobId e (length (ingestion_jobs w1))
              in (Inr job_id,
                  w1\<lparr>ingestion_jobs := ingestion_jobs w1 @
                       [\<lparr>ingestionJobId = job_id, job_knowledgeBaseId = kb_id,
                         job_dataSourceId = ds_id, job_status = ''STARTING'',
                         job_description = descr, failureReasons = []\<rparr>]\<rparr>)))"

text \<open>
  \<^verbatim>\<open>list_ingestion_jobs(..., maxResults=10)\<close>: one page of at most ten summaries, in the
  order of the model's list; the order in which the provider answers is its own.
\<close>

definition list_ingestion_jobs ::
    "env \<Rightarrow> string \<Rightarrow> string \<Rightarrow> world \<Rightarrow> exn + ingestion_job list" where
  "list_ingestion_jobs e kb_id ds_id w =
     (case fault e (ListIngestionJobs kb_id ds_id) of
        Some x \<Rightarrow> Inl x
      | None \<Rightarrow>
          Inr (take 10 (filter (\<lambda>j. job_knowledgeBaseId j = kb_id \<and> job_dataSourceId j = ds_id)
                          (ingestion_jobs w))))"

text \<open>
  S3 Vectors and the creation calls of Bedrock Agent. What the provider does inside is not
  part of the code: a call fails when the environment says so, creating a bucket or an
  index that is there raises ConflictException, and otherwise the resource is recorded.
\<close>

definition ConflictException :: "string \<Rightarrow> exn" where
  "ConflictException k = Exn ''botocore.errorfactory.ConflictException'' (''Conflict: '' @ k)"

definition create_vector_bucket :: "env \<Rightarrow> string \<Rightarrow> world \<Rightarrow> exn + world" where
  "create_vector_bucket e name w =
     (case fault e (CreateVectorBucket name) of
        Some x \<Rightarrow> Inl x
      | None \<Rightarrow>
          (if name \<in> set (vector_buckets w) then Inl (ConflictException name)
           else Inr (w\<lparr>vector_buckets := vector_buckets w @ [name]\<rparr>)))"

definition create_index :: "env \<Rightarrow> string \<Rightarrow> string \<Rightarrow> world \<Rightarrow> exn + world" where
  "create_index e bucket name w =
     (case fault e (CreateIndex bucket name) of
        Some x \<Rightarrow> Inl x
      | None \<Rightarrow>
          (if (bucket, name) \<in> set (vector_indexes w) then Inl (ConflictException name)
           else Inr (w\<lparr>vector_indexes := vector_indexes w @ [(bucket, name)]\<rparr>)))"

definition delete_vector_bucket :: "env \<Rightarrow> string \<Rightarrow> world \<Rightarrow> exn + world" where
  "delete_vector_bucket e name w =
     (case fault e (DeleteVectorBucket name) of
        Some x \<Rightarrow> Inl x
      | None \<Rightarrow> Inr (w\<lparr>vector_buckets := filter (\<lambda>b. b \<noteq> name) (vector_buckets w)\<rparr>))"

definition create_knowledge_base :: "env \<Rightarrow> string \<Rightarrow> world \<Rightarrow> (exn + string) \<times> world" where
  "create_knowledge_base e name w =
     (case fault e (CreateKnowledgeBase name) of
        Some x \<Rightarrow> (Inl x, w)
      | None \<Rightarrow>
          (Inr (new_knowledgeBaseId e),
           w\<lparr>knowledge_bases := knowledge_bases w @ [(new_knowledgeBaseId e, name)]\<rparr>))"

definition create_data_source ::
    "env \<Rightarrow> string \<Rightarrow> string \<Rightarrow> string list \<Rightarrow> world \<Rightarrow> (exn + string) \<times> world" where
  "create_data_source e kb_id name prefixes w =
     (case fault e (CreateDataSource kb_id) of
        Some x \<Rightarrow> (Inl x, w)
      | None \<Rightarrow>
          (Inr (new_dataSourceId e),
           w\<lparr>data_sources := data_sources w @
                [\<lparr>dataSourceId = new_dataSourceId e, ds_knowledgeBaseId = kb_id,
                  ds_name = name, inclusionPrefixes = prefixes\<rparr>]\<rparr>))"

section \<open>knowledge\_base\_manager.py\<close>

subsection \<open>Reading and verifying the user's Knowledge Base\<close>

definition get_user_kb_from_db :: "env \<Rightarrow> string \<Rightarrow> world \<Rightarrow> user_kb option \<times> world" where
  "get_user_kb_from_db e uid w =
     (case kb_get_item e uid w of
        Inr item \<Rightarrow> (item, w)
      | Inl x \<Rightarrow> (None, logger_error (''Failed to get user KB from DB: '' @ str_exn x) w))"

definition verify_kb_exists :: "env \<Rightarrow> string \<Rightarrow> world \<Rightarrow> bool" where
  "verify_kb_exists e kb_id w =
     (case get_knowledge_base e kb_id w of Inr _ \<Rightarrow> True | Inl _ \<Rightarrow> False)"

definition remove_user_kb_from_db :: "env \<Rightarrow> string \<Rightarrow> world \<Rightarrow> world" where
  "remove_user_kb_from_db e uid w =
     (case kb_delete_item e uid w of
        Inr w1 \<Rightarrow> w1
      | Inl x \<Rightarrow> logger_error (''Failed to remove user KB from DB: '' @ str_exn x) w)"

subsection \<open>Triggering an ingestion job\<close>

definition trigger_ingestion_job ::
    "env \<Rightarrow> string \<Rightarrow> string \<Rightarrow> string \<Rightarrow> world \<Rightarrow> (exn + unit) \<times> world" where
  "trigger_ingestion_job e kb_id ds_id did w =
     (case start_ingestion_job e kb_id ds_id (''Ingestion job for document '' @ did) w of
        (Inl x, w1) \<Rightarrow>
          (Inl x, logger_error (''Failed to trigger ingestion job: '' @ str_exn x) w1)
      | (Inr job_id, w1) \<Rightarrow>
          (case doc_update_item e did
                  (\<lambda>d. d\<lparr>ingestion_job_id := Some job_id, last_modified := Some (utcnow e)\<rparr>) w1 of
             Inl x \<Rightarrow>
               (Inl x, logger_error (''Failed to trigger ingestion job: '' @ str_exn x) w1)
           | Inr w2 \<Rightarrow> (Inr (), w2)))"

subsection \<open>Moving the pending documents\<close>

text \<open>
  The body of the loop of \<^verbatim>\<open>_process_pending_documents\<close> for one listed key: every
  exception is caught inside the loop, logged, and the loop goes on. The documents table
  is opened there by the fixed name 'ai-ppt-documents', the default of
  DOCUMENTS\_TABLE\_NAME; the model has the one documents table.
\<close>

definition process_pending_item :: "env \<Rightarrow> string \<Rightarrow> string \<Rightarrow> world \<Rightarrow> world" where
  "process_pending_item e uhash old_key w =
     (let path_parts = str_split CHR ''/'' old_key in
      if length path_parts < 4
      then logger_warning (''Invalid pending document key format: '' @ old_key) w
      else
        (let did = path_parts ! 2;
             fname = path_parts ! 3;
             new_key = ''docs/'' @ uhash @ ''/'' @ did @ ''/'' @ fname;
             failed = (\<lambda>x. logger_error
                        (''Failed to process pending document '' @ old_key @ '': '' @ str_exn x))
         in case s3_copy_object e old_key new_key w of
              Inl x \<Rightarrow> failed x w
            | Inr w1 \<Rightarrow>
                (case s3_delete_object e old_key w1 of
                   Inl x \<Rightarrow> failed x w1
                 | Inr w2 \<Rightarrow>
                     (case doc_update_item e did
                             (\<lambda>d. d\<lparr>s3_key := Some new_key,
                                    sync_status := Some ''ready_for_ingestion''\<rparr>) w2 of
                        Inl x \<Rightarrow> failed x w2
                      | Inr w3 \<Rightarrow> w3))))"

fun process_pending_loop :: "env \<Rightarrow> string \<Rightarrow> string list \<Rightarrow> world \<Rightarrow> world" where
  "process_pending_loop e uhash [] w = w"
| "process_pending_loop e uhash (old_key # objs) w =
     process_pending_loop e uhash objs (process_pending_item e uhash old_key w)"

text \<open>
  \<^verbatim>\<open>_process_pending_documents\<close>: the outer handler logs and returns, it never raises.
\<close>

definition process_pending_documents :: "env \<Rightarrow> string \<Rightarrow> user_kb \<Rightarrow> world \<Rightarrow> world" where
  "process_pending_documents e uid user_kb_info w =
     (let failed = (\<lambda>x. logger_error
                     (''Failed to process pending documents for user '' @ uid @ '': '' @ str_exn x))
      in case user_hash user_kb_info of
           None \<Rightarrow> failed (KeyError ''user_hash'') w
         | Some uhash \<Rightarrow>
        (case kb_knowledge_base_id user_kb_info of
           None \<Rightarrow> failed (KeyError ''knowledge_base_id'') w
         | Some kb_id \<Rightarrow>
        (case kb_data_source_id user_kb_info of
           None \<Rightarrow> failed (KeyError ''data_source_id'') w
         | Some ds_id \<Rightarrow>
        (case s3_list_objects_v2 e (''pending/'' @ uid @ ''/'') w of
           Inl x \<Rightarrow> failed x w
         | Inr pending_objects \<Rightarrow>
             if pending_objects = [] then w
             else
               (let w1 = process_pending_loop e uhash pending_objects w in
                case trigger_ingestion_job e kb_id ds_id
                       (''pending_documents_batch_'' @ str_nat (time_time e)) w1 of
                  (Inl x, w2) \<Rightarrow> failed x w2
                | (Inr _, w2) \<Rightarrow>
                    (let processed_count = length pending_objects in
                     if processed_count > 0
                     then (case kb_update_item_add e uid (int processed_count) w2 of
                             Inl x \<Rightarrow> failed x w2
                           | Inr w3 \<Rightarrow> w3)
                     else w2))))))"

subsection \<open>Creating the user's Knowledge Base\<close>

text \<open>
  The body of the \<^verbatim>\<open>try\<close> of \<^verbatim>\<open>_create_user_kb\<close>. An "already exists" answer to the
  creation of the bucket or of the index is logged at info level and passed over; the
  thirty seconds of \<^verbatim>\<open>time.sleep\<close> change nothing in the world.
\<close>

definition already_exists :: "string \<Rightarrow> exn \<Rightarrow> bool" where
  "already_exists what x = (str_in ''ConflictException'' (str_type x) \<or> str_in what (str_exn x))"

definition create_user_kb_body ::
    "env \<Rightarrow> string \<Rightarrow> string \<Rightarrow> string \<Rightarrow> string \<Rightarrow> string \<Rightarrow> world \<Rightarrow> (exn + user_kb) \<times> world" where
  "create_user_kb_body e uid uhash name bucket index w =
     (case (case create_vector_bucket e bucket w of
              Inr w1 \<Rightarrow> (Inr (), w1)
            | Inl x \<Rightarrow>
                if already_exists ''BucketAlreadyExists'' x then (Inr (), w)
                else (Inl x, logger_error (''Error creating S3 vectors bucket: '' @ str_exn x) w)) of
        (Inl x, w1) \<Rightarrow> (Inl x, w1)
      | (Inr _, w1) \<Rightarrow>
     (case (case create_index e bucket index w1 of
              Inr w2 \<Rightarrow> (Inr (), w2)
            | Inl x \<Rightarrow>
                if already_exists ''IndexAlreadyExists'' x then (Inr (), w1)
                else (Inl x, logger_error (''Error creating vector index: '' @ str_exn x) w1)) of
        (Inl x, w2) \<Rightarrow> (Inl x, w2)
      | (Inr _, w2) \<Rightarrow>
     (case create_knowledge_base e name w2 of
        (Inl x, w3) \<Rightarrow> (Inl x, w3)
      | (Inr kb_id, w3) \<Rightarrow>
     (case create_data_source e kb_id (''ai-ppt-docs-'' @ uhash) [''docs/'' @ uhash @ ''/''] w3 of
        (Inl x, w4) \<Rightarrow> (Inl x, w4)
      | (Inr ds_id, w4) \<Rightarrow>
          (let user_kb_info =
                 \<lparr>kb_user_id = Some uid, kb_knowledge_base_id = Some kb_id,
                  kb_data_source_id = Some ds_id, vector_bucket_name = Some bucket,
                  vector_index_name = Some index, kb_name = Some name,
                  user_hash = Some uhash, created_at = Some (utcnow e),
                  status = Some ''active'', document_count = Some 0,
                  storage_type = Some ''s3_vectors''\<rparr>
           in case kb_put_item e uid user_kb_info w4 of
                Inl x \<Rightarrow> (Inl x, w4)
              | Inr w5 \<Rightarrow>
                  (Inr (empty_user_kb\<lparr>kb_knowledge_base_id := Some kb_id,
                                      kb_data_source_id := Some ds_id,
                                      vector_bucket_name := Some bucket,
                                      user_hash := Some uhash\<rparr>),
                   process_pending_documents e uid user_kb_info w5))))))"

text \<open>
  \<^verbatim>\<open>_create_user_kb\<close>: on any exception of the body the vector bucket is deleted,
  best effort, and the exception is raised again.
\<close>

definition create_user_kb :: "env \<Rightarrow> string \<Rightarrow> world \<Rightarrow> (exn + user_kb) \<times> world" where
  "create_user_kb e uid w =
     (let uhash = take 8 (md5_hexdigest e uid);
          timestamp = str_nat (time_time e);
          name = ''ai-ppt-kb-'' @ uhash @ ''-'' @ timestamp;
          bucket = ''ai-ppt-vectors-'' @ uhash @ ''-'' @ timestamp;
          index = ''ai-ppt-index-'' @ uhash
      in case create_user_kb_body e uid uhash name bucket index w of
           (Inr r, w1) \<Rightarrow> (Inr r, w1)
         | (Inl x, w1) \<Rightarrow>
             (let w2 = logger_error
                         (''Failed to create KB for user '' @ uid @ '': '' @ str_exn x) w1
              in case delete_vector_bucket e bucket w2 of
                   Inr w3 \<Rightarrow> (Inl x, w3)
                 | Inl cleanup_error \<Rightarrow>
                     (Inl x, logger_warning
                        (''Failed to cleanup S3 vectors bucket: '' @ str_exn cleanup_error) w2)))"

subsection \<open>get\_or\_create\_user\_kb\<close>

definition get_or_create_user_kb :: "env \<Rightarrow> string \<Rightarrow> world \<Rightarrow> (exn + user_kb) \<times> world" where
  "get_or_create_user_kb e uid w =
     (let failed = (\<lambda>x. logger_error
                     (''Failed to get/create KB for user '' @ uid @ '': '' @ str_exn x));
          create = (\<lambda>w1. case create_user_kb e uid w1 of
                            (Inr r, w2) \<Rightarrow> (Inr r, w2)
                          | (Inl x, w2) \<Rightarrow> (Inl x, failed x w2))
      in case get_user_kb_from_db e uid w of
           (None, w1) \<Rightarrow> create w1
         | (Some existing_kb, w1) \<Rightarrow>
             (case kb_knowledge_base_id existing_kb of
                None \<Rightarrow> (Inl (KeyError ''knowledge_base_id''),
                         failed (KeyError ''knowledge_base_id'') w1)
              | Some kb_id \<Rightarrow>
                  if verify_kb_exists e kb_id w1 then (Inr existing_kb, w1)
                  else create (remove_user_kb_from_db e uid
                                 (logger_warning
                                    (''KB '' @ kb_id @ '' no longer exists, creating new one'') w1))))"

subsection \<open>create\_and\_process\_document\<close>

text \<open>The dict \<^verbatim>\<open>create_and_process_document\<close> returns.\<close>

record create_result =
  cr_success :: bool
  cr_knowledge_base_id :: "string option"
  cr_data_source_id :: "string option"
  cr_document_id :: "string option"
  cr_error :: "string option"
  cr_message :: string

text \<open>
  Step 2 of \<^verbatim>\<open>create_and_process_document\<close>: the file is moved from the temporary key
  to the final one. The handler for NoSuchKey covers the three calls of the \<^verbatim>\<open>try\<close>; it
  looks for the final key and raises when that one is reported as NoSuchKey too. Any other
  exception, the 404 of \<^verbatim>\<open>head_object\<close> among them, is raised on.
\<close>

definition move_to_final :: "env \<Rightarrow> string \<Rightarrow> string \<Rightarrow> world \<Rightarrow> (exn + unit) \<times> world" where
  "move_to_final e temp_s3_key final_s3_key w =
     (let no_such_key = (\<lambda>w1.
            case s3_head_object e final_s3_key w1 of
              Inr _ \<Rightarrow> (Inr (), w1)
            | Inl y \<Rightarrow>
                if exn_type y = ''NoSuchKey''
                then (Inl (Exn ''Exception''
                        (''Document not found in temp location ('' @ temp_s3_key @
                         '') or final location ('' @ final_s3_key @ '')'')), w1)
                else (Inl y, w1));
          handle = (\<lambda>x w1. if exn_type x = ''NoSuchKey'' then no_such_key w1 else (Inl x, w1))
      in case s3_head_object e temp_s3_key w of
           Inl x \<Rightarrow> handle x w
         | Inr _ \<Rightarrow>
             (case s3_copy_object e temp_s3_key final_s3_key w of
                Inl x \<Rightarrow> handle x w
              | Inr w1 \<Rightarrow>
                  (case s3_delete_object e temp_s3_key w1 of
                     Inl x \<Rightarrow> handle x w1
                   | Inr w2 \<Rightarrow> (Inr (), w2))))"

text \<open>
  The \<^verbatim>\<open>try\<close> of \<^verbatim>\<open>create_and_process_document\<close> holds an \<^verbatim>\<open>import boto3\<close> after
  its first steps, which makes \<open>boto3\<close> a local name of the whole function, unbound until
  that line has run. The steps before the import: the four keys of the event, the creation
  of the Knowledge Base, the user hash.
\<close>

definition create_and_process_prepare ::
    "env \<Rightarrow> kb_event \<Rightarrow> world \<Rightarrow> (exn + string \<times> string \<times> string \<times> user_kb \<times> string) \<times> world" where
  "create_and_process_prepare e event w =
     (case ev_document_id event of
        None \<Rightarrow> (Inl (KeyError ''document_id''), w)
      | Some did \<Rightarrow>
     (case ev_filename event of
        None \<Rightarrow> (Inl (KeyError ''filename''), w)
      | Some fname \<Rightarrow>
     (case ev_temp_s3_key event of
        None \<Rightarrow> (Inl (KeyError ''temp_s3_key''), w)
      | Some temp_s3_key \<Rightarrow>
     (case create_user_kb e (ev_user_id event) w of
        (Inl x, w1) \<Rightarrow> (Inl x, w1)
      | (Inr user_kb_info, w1) \<Rightarrow>
     (case user_hash user_kb_info of
        None \<Rightarrow> (Inl (KeyError ''user_hash''), w1)
      | Some uhash \<Rightarrow> (Inr (did, fname, temp_s3_key, user_kb_info, uhash), w1))))))"

text \<open>The steps after the import: moving the file, the item, the ingestion job, the count.\<close>

definition create_and_process_steps ::
    "env \<Rightarrow> kb_event \<Rightarrow> string \<Rightarrow> string \<Rightarrow> string \<Rightarrow> user_kb \<Rightarrow> string \<Rightarrow> world \<Rightarrow>
     (exn + create_result) \<times> world" where
  "create_and_process_steps e event did fname temp_s3_key user_kb_info uhash w1 =
     (let final_s3_key = ''docs/'' @ uhash @ ''/'' @ did @ ''/'' @ fname in
      case move_to_final e temp_s3_key final_s3_key w1 of
        (Inl x, w2) \<Rightarrow> (Inl x, w2)
      | (Inr _, w2) \<Rightarrow>
     (case kb_knowledge_base_id user_kb_info of
        None \<Rightarrow> (Inl (KeyError ''knowledge_base_id''), w2)
      | Some kb_id \<Rightarrow>
     (case kb_data_source_id user_kb_info of
        None \<Rightarrow> (Inl (KeyError ''data_source_id''), w2)
      | Some ds_id \<Rightarrow>
     (case doc_update_item e did
             (\<lambda>d. d\<lparr>s3_key := Some final_s3_key, knowledge_base_id := Some kb_id,
                    data_source_id := Some ds_id, sync_status := Some ''processing'',
                    message := Some ''Knowledge Base created successfully. Starting document ingestion...'',
                    last_modified := Some (utcnow e)\<rparr>) w2 of
        Inl x \<Rightarrow> (Inl x, w2)
      | Inr w3 \<Rightarrow>
     (case trigger_ingestion_job e kb_id ds_id did w3 of
        (Inl x, w4) \<Rightarrow> (Inl x, w4)
      | (Inr _, w4) \<Rightarrow>
     (case kb_update_item_add e (ev_user_id event) 1 w4 of
        Inl x \<Rightarrow> (Inl x, w4)
      | Inr w5 \<Rightarrow>
          (Inr \<lparr>cr_success = True, cr_knowledge_base_id = Some kb_id,
                cr_data_source_id = Some ds_id, cr_document_id = Some did,
                cr_error = None,
                cr_message = ''Knowledge Base created and document processing started''\<rparr>,
           w5)))))))"

text \<open>
  The body of the \<^verbatim>\<open>try\<close>, which answers the success dict or raises; an exception comes
  with the fact whether the import had run.
\<close>

definition create_and_process_body ::
    "env \<Rightarrow> kb_event \<Rightarrow> world \<Rightarrow> (exn \<times> bool + create_result) \<times> world" where
  "create_and_process_body e event w =
     (case create_and_process_prepare e event w of
        (Inl x, w1) \<Rightarrow> (Inl (x, False), w1)
      | (Inr (did, fname, temp_s3_key, user_kb_info, uhash), w1) \<Rightarrow>
          (case create_and_process_steps e event did fname temp_s3_key user_kb_info uhash w1 of
             (Inl x, w2) \<Rightarrow> (Inl (x, True), w2)
           | (Inr r, w2) \<Rightarrow> (Inr r, w2)))"

text \<open>
  The handler writes 'failed' on the document through \<^verbatim>\<open>boto3.resource\<close>: when the import
  had not run, that name is unbound, the UnboundLocalError is caught by the inner handler
  and the document is left as it was. (The text of the error is the one of Python 3.11.)
\<close>

definition UnboundLocalError :: "string \<Rightarrow> exn" where
  "UnboundLocalError name =
     Exn ''UnboundLocalError''
       (''cannot access local variable '' @ [CHR 0x27] @ name @ [CHR 0x27] @
        '' where it is not associated with a value'')"

definition create_and_process_document :: "env \<Rightarrow> kb_event \<Rightarrow> world \<Rightarrow> create_result \<times> world" where
  "create_and_process_document e event w =
     (case create_and_process_body e event w of
        (Inr r, w1) \<Rightarrow> (r, w1)
      | (Inl (x, imported), w1) \<Rightarrow>
          (let w2 = logger_error (''Failed to create KB and process document: '' @ str_exn x) w1;
               update_failed = (\<lambda>y. logger_error
                                  (''Failed to update document status: '' @ str_exn y));
               w3 = (if \<not> imported then update_failed (UnboundLocalError ''boto3'') w2
                     else
                       (case ev_document_id event of
                          None \<Rightarrow> update_failed (KeyError ''document_id'') w2
                        | Some did \<Rightarrow>
                            (case doc_update_item e did
                                    (\<lambda>d. d\<lparr>sync_status := Some ''failed'',
                                           message := Some (''Failed to create Knowledge Base: '' @ str_exn x),
                                           last_modified := Some (utcnow e)\<rparr>) w2 of
                               Inl y \<Rightarrow> update_failed y w2
                             | Inr w' \<Rightarrow> w')))
           in (\<lparr>cr_success = False, cr_knowledge_base_id = None, cr_data_source_id = None,
                cr_document_id = ev_document_id event, cr_error = Some (str_exn x),
                cr_message = ''Failed to create Knowledge Base: '' @ str_exn x\<rparr>, w3)))"

subsection \<open>check\_ingestion\_status\<close>

text \<open>The dict \<^verbatim>\<open>check_ingestion_status\<close> returns: an error, or the count and its message.\<close>

datatype check_result =
    CheckError (check_error: string)
  | CheckSuccess (updated_documents: nat) (check_message: string)

definition set_completed :: "env \<Rightarrow> document \<Rightarrow> document" where
  "set_completed e d =
     d\<lparr>sync_status := Some ''completed'',
       message := Some ''Document successfully indexed in Knowledge Base'',
       last_modified := Some (utcnow e)\<rparr>"

definition set_failed :: "env \<Rightarrow> document \<Rightarrow> document" where
  "set_failed e d =
     d\<lparr>sync_status := Some ''failed'',
       message := Some ''Knowledge Base ingestion failed'',
       last_modified := Some (utcnow e)\<rparr>"

text \<open>
  The loop over the scanned items of a COMPLETE job: each update is followed by
  \<^verbatim>\<open>updated_count += 1\<close>; an exception leaves the loop with the count reached so far.
\<close>

fun complete_items :: "env \<Rightarrow> document list \<Rightarrow> nat \<Rightarrow> world \<Rightarrow> exn option \<times> nat \<times> world" where
  "complete_items e [] updated_count w = (None, updated_count, w)"
| "complete_items e (item # items) updated_count w =
     (case doc_update_item e (document_id item) (set_completed e) w of
        Inl x \<Rightarrow> (Some x, updated_count, w)
      | Inr w1 \<Rightarrow> complete_items e items (updated_count + 1) w1)"

text \<open>The loop over the scanned items of a FAILED job: the count is not touched.\<close>

fun fail_items :: "env \<Rightarrow> document list \<Rightarrow> world \<Rightarrow> exn option \<times> world" where
  "fail_items e [] w = (None, w)"
| "fail_items e (item # items) w =
     (case doc_update_item e (document_id item) (set_failed e) w of
        Inl x \<Rightarrow> (Some x, w)
      | Inr w1 \<Rightarrow> fail_items e items w1)"

text \<open>The body of the loop over the job summaries.\<close>

definition check_job :: "env \<Rightarrow> ingestion_job \<Rightarrow> nat \<Rightarrow> world \<Rightarrow> nat \<times> world" where
  "check_job e job updated_count w =
     (let job_id = ingestionJobId job in
      if job_status job = ''COMPLETE'' then
        (let failed = (\<lambda>x. logger_error
                         (''Failed to update documents for job '' @ job_id @ '': '' @ str_exn x))
         in case doc_scan e job_id [''processing'', ''syncing''] w of
              Inl x \<Rightarrow> (updated_count, failed x w)
            | Inr items \<Rightarrow>
                (case complete_items e items updated_count w of
                   (None, n, w1) \<Rightarrow> (n, w1)
                 | (Some x, n, w1) \<Rightarrow> (n, failed x w1)))
      else if job_status job = ''FAILED'' then
        (let failed = (\<lambda>x. logger_error
                         (''Failed to update failed documents for job '' @ job_id @ '': '' @ str_exn x))
         in case doc_scan e job_id [''processing''] w of
              Inl x \<Rightarrow> (updated_count, failed x w)
            | Inr items \<Rightarrow>
                (case fail_items e items w of
                   (None, w1) \<Rightarrow> (updated_count, w1)
                 | (Some x, w1) \<Rightarrow> (updated_count, failed x w1)))
      else (updated_count, w))"

fun check_jobs :: "env \<Rightarrow> ingestion_job list \<Rightarrow> nat \<Rightarrow> world \<Rightarrow> nat \<times> world" where
  "check_jobs e [] updated_count w = (updated_count, w)"
| "check_jobs e (job # jobs) updated_count w =
     (case check_job e job updated_count w of (n, w1) \<Rightarrow> check_jobs e jobs n w1)"

definition check_ingestion_status :: "env \<Rightarrow> string \<Rightarrow> world \<Rightarrow> check_result \<times> world" where
  "check_ingestion_status e uid w =
     (let failed = (\<lambda>x w1.
            (CheckError (str_exn x),
             logger_error (''Failed to check ingestion status for user '' @ uid @ '': '' @ str_exn x) w1))
      in case get_user_kb_from_db e uid w of
           (None, w1) \<Rightarrow> (CheckError ''No Knowledge Base found for user'', w1)
         | (Some user_kb, w1) \<Rightarrow>
        (case kb_knowledge_base_id user_kb of
           None \<Rightarrow> failed (KeyError ''knowledge_base_id'') w1
         | Some kb_id \<Rightarrow>
        (case kb_data_source_id user_kb of
           None \<Rightarrow> failed (KeyError ''data_source_id'') w1
         | Some ds_id \<Rightarrow>
        (case list_ingestion_jobs e kb_id ds_id w1 of
           Inl x \<Rightarrow> failed x w1
         | Inr jobs \<Rightarrow>
             (case check_jobs e jobs 0 w1 of
                (updated_count, w2) \<Rightarrow>
                  (CheckSuccess updated_count
                     (''Updated '' @ str_nat updated_count @ '' document statuses''), w2))))))"

text \<open>
  The branch of the manager's \<^verbatim>\<open>lambda_handler\<close> for the operation
  'check\_ingestion\_status', which is how the document processor reaches the reconciler:
  an empty user id is answered 400 before anything is looked at. The pair is the
  \<^verbatim>\<open>statusCode\<close> and the body before \<^verbatim>\<open>json.dumps\<close>.
\<close>

definition lambda_handler_check_ingestion_status ::
    "env \<Rightarrow> string \<Rightarrow> world \<Rightarrow> (nat \<times> check_result) \<times> world" where
  "lambda_handler_check_ingestion_status e uid w =
     (if uid = [] then ((400, CheckError ''user_id is required''), w)
      else (case check_ingestion_status e uid w of (result, w1) \<Rightarrow> ((200, result), w1)))"

section \<open>document\_processor.py\<close>

subsection \<open>Looking for the user's Knowledge Base\<close>

text \<open>
  The warnings and errors of these two functions start with the cross mark U+274C, kept
  here as its three UTF-8 bytes. The handler of \<^verbatim>\<open>_get_existing_user_kb\<close> logs a second
  line with the traceback, which is not modelled.
\<close>

definition dp_verify_kb_exists :: "env \<Rightarrow> string \<Rightarrow> world \<Rightarrow> bool \<times> world" where
  "dp_verify_kb_exists e kb_id w =
     (case get_knowledge_base e kb_id w of
        Inr _ \<Rightarrow> (True, w)
      | Inl x \<Rightarrow>
          (False, logger_warning
             ([CHR 0xE2, CHR 0x9D, CHR 0x8C] @ '' KB '' @ kb_id @ '' verification failed: '' @ str_exn x) w))"

definition get_existing_user_kb :: "env \<Rightarrow> string \<Rightarrow> world \<Rightarrow> user_kb option \<times> world" where
  "get_existing_user_kb e uid w =
     (let failed = (\<lambda>x. logger_error
                     ([CHR 0xE2, CHR 0x9D, CHR 0x8C] @ '' Failed to check existing KB for user '' @
                      uid @ '': '' @ str_exn x))
      in case kb_get_item e uid w of
           Inl x \<Rightarrow> (None, failed x w)
         | Inr None \<Rightarrow> (None, w)
         | Inr (Some kb_info) \<Rightarrow>
             (case kb_knowledge_base_id kb_info of
                None \<Rightarrow> (None, failed (KeyError ''knowledge_base_id'') w)
              | Some kb_id \<Rightarrow>
                  (case dp_verify_kb_exists e kb_id w of
                     (True, w1) \<Rightarrow> (Some kb_info, w1)
                   | (False, w1) \<Rightarrow>
                       (let w2 = logger_warning
                                   ([CHR 0xE2, CHR 0x9D, CHR 0x8C] @ '' KB '' @ kb_id @
                                    '' no longer exists - removing stale record'') w1
                        in case kb_delete_item e uid w2 of
                             Inl x \<Rightarrow> (None, failed x w2)
                           | Inr w3 \<Rightarrow> (None, w3)))))"

subsection \<open>Uploading a document\<close>

definition get_content_type :: "string \<Rightarrow> string" where
  "get_content_type fname =
     (let extension = (if CHR ''.'' \<in> set fname then last (str_split CHR ''.'' (lower fname)) else [])
      in if extension = ''pdf'' then ''application/pdf''
         else if extension = ''txt'' then ''text/plain''
         else if extension = ''md'' then ''text/markdown''
         else if extension = ''doc'' then ''application/msword''
         else if extension = ''docx''
           then ''application/vnd.openxmlformats-officedocument.wordprocessingml.document''
         else ''application/octet-stream'')"

text \<open>The dict \<^verbatim>\<open>process_document\<close> returns.\<close>

record upload_result =
  ur_success :: bool
  ur_documentId :: "string option"
  ur_s3_key :: "string option"
  ur_knowledge_base_id :: "string option"
  ur_sync_status :: "string option"
  ur_message :: string
  ur_isFirstUpload :: "bool option"
  ur_estimatedTime :: "string option"

text \<open>
  \<^verbatim>\<open>_trigger_kb_ingestion\<close>: whatever the \<^verbatim>\<open>try\<close> raises is caught and written on
  the document as 'failed'; only that last update, which stands in the handler, can raise.
\<close>

definition trigger_kb_ingestion :: "env \<Rightarrow> user_kb \<Rightarrow> string \<Rightarrow> world \<Rightarrow> (exn + unit) \<times> world" where
  "trigger_kb_ingestion e user_kb_info did w =
     (let failed = (\<lambda>x w1.
            (let w2 = logger_error (''Failed to trigger KB ingestion: '' @ str_exn x) w1 in
             case doc_update_item e did
                    (\<lambda>d. d\<lparr>sync_status := Some ''failed'', error_message := Some (str_exn x),
                           last_modified := Some (utcnow e)\<rparr>) w2 of
               Inl y \<Rightarrow> (Inl y, w2)
             | Inr w3 \<Rightarrow> (Inr (), w3)))
      in case kb_knowledge_base_id user_kb_info of
           None \<Rightarrow> failed (KeyError ''knowledge_base_id'') w
         | Some kb_id \<Rightarrow>
        (case kb_data_source_id user_kb_info of
           None \<Rightarrow> failed (KeyError ''data_source_id'') w
         | Some ds_id \<Rightarrow>
        (case start_ingestion_job e kb_id ds_id (''Ingestion for document '' @ did) w of
           (Inl x, w1) \<Rightarrow> failed x w1
         | (Inr job_id, w1) \<Rightarrow>
             (case doc_update_item e did
                     (\<lambda>d. d\<lparr>sync_status := Some ''syncing'', ingestion_job_id := Some job_id,
                            last_modified := Some (utcnow e)\<rparr>) w1 of
                Inl x \<Rightarrow> failed x w1
              | Inr w2 \<Rightarrow> (Inr (), w2)))))"

definition upload_metadata :: "env \<Rightarrow> string \<Rightarrow> string \<Rightarrow> string \<Rightarrow> (string \<times> string) list" where
  "upload_metadata e uid did fname =
     [(''user_id'', uid), (''document_id'', did), (''original_filename'', fname),
      (''upload_timestamp'', utcnow e)]"

definition process_with_existing_kb ::
    "env \<Rightarrow> string \<Rightarrow> string \<Rightarrow> string \<Rightarrow> string \<Rightarrow> user_kb \<Rightarrow> world \<Rightarrow> (exn + upload_result) \<times> world" where
  "process_with_existing_kb e pdf_content fname uid did kb_info w =
     (let failed = (\<lambda>x w1.
            (Inl x, logger_error (''Failed to process document with existing KB: '' @ str_exn x) w1))
      in case user_hash kb_info of
           None \<Rightarrow> failed (KeyError ''user_hash'') w
         | Some uhash \<Rightarrow>
        (let key = ''docs/'' @ uhash @ ''/'' @ did @ ''/'' @ fname in
         case s3_put_object e key
                \<lparr>body = pdf_content, ContentType = get_content_type fname,
                 Metadata = upload_metadata e uid did fname\<rparr> w of
           Inl x \<Rightarrow> failed x w
         | Inr w1 \<Rightarrow>
        (case kb_knowledge_base_id kb_info of
           None \<Rightarrow> failed (KeyError ''knowledge_base_id'') w1
         | Some kb_id \<Rightarrow>
        (case kb_data_source_id kb_info of
           None \<Rightarrow> failed (KeyError ''data_source_id'') w1
         | Some ds_id \<Rightarrow>
        (let document_metadata =
               (empty_document did)
                 \<lparr>user_id := Some uid, s3_key := Some key, filename := Some fname,
                  file_size := Some (length pdf_content),
                  content_type := Some (get_content_type fname),
                  knowledge_base_id := Some kb_id, data_source_id := Some ds_id,
                  upload_date := Some (utcnow e), sync_status := Some ''uploaded'',
                  processing_attempts := Some 0, last_modified := Some (utcnow e)\<rparr>
         in case doc_put_item e document_metadata w1 of
              Inl x \<Rightarrow> failed x w1
            | Inr w2 \<Rightarrow>
                (case trigger_kb_ingestion e kb_info did w2 of
                   (Inl x, w3) \<Rightarrow> failed x w3
                 | (Inr _, w3) \<Rightarrow>
                     (Inr \<lparr>ur_success = True, ur_documentId = Some did, ur_s3_key = Some key,
                           ur_knowledge_base_id = Some kb_id,
                           ur_sync_status = Some ''processing'',
                           ur_message = ''Document '' @ fname @ '' uploaded and processing started'',
                           ur_isFirstUpload = None, ur_estimatedTime = None\<rparr>, w3)))))))"

text \<open>
  \<^verbatim>\<open>lambda_client.invoke\<close> of the Knowledge Base manager with InvocationType 'Event':
  the invocation is queued and the caller goes on.
\<close>

definition lambda_invoke_event :: "env \<Rightarrow> kb_event \<Rightarrow> world \<Rightarrow> exn + world" where
  "lambda_invoke_event e event w =
     (case fault e (LambdaInvoke (operation event)) of
        Some x \<Rightarrow> Inl x
      | None \<Rightarrow> Inr (w\<lparr>lambda_invocations := lambda_invocations w @ [(''Event'', event)]\<rparr>))"

definition start_async_kb_creation ::
    "env \<Rightarrow> string \<Rightarrow> string \<Rightarrow> string \<Rightarrow> string \<Rightarrow> world \<Rightarrow> (exn + upload_result) \<times> world" where
  "start_async_kb_creation e pdf_content fname uid did w =
     (let failed = (\<lambda>x w1.
            (Inl x, logger_error (''Failed to start async KB creation: '' @ str_exn x) w1));
          temp_s3_key = ''pending/'' @ uid @ ''/'' @ did @ ''/'' @ fname
      in case s3_put_object e temp_s3_key
                \<lparr>body = pdf_content, ContentType = get_content_type fname,
                 Metadata = upload_metadata e uid did fname @ [(''status'', ''pending_kb_creation'')]\<rparr> w of
           Inl x \<Rightarrow> failed x w
         | Inr w1 \<Rightarrow>
        (let document_metadata =
               (empty_document did)
                 \<lparr>user_id := Some uid, s3_key := Some temp_s3_key, filename := Some fname,
                  file_size := Some (length pdf_content),
                  content_type := Some (get_content_type fname),
                  upload_date := Some (utcnow e),
                  sync_status := Some ''creating_knowledge_base'',
                  processing_attempts := Some 0, last_modified := Some (utcnow e),
                  message := Some ''Creating your personal Knowledge Base (first upload takes 2-3 minutes)...''\<rparr>
         in case doc_put_item e document_metadata w1 of
              Inl x \<Rightarrow> failed x w1
            | Inr w2 \<Rightarrow>
                (case lambda_invoke_event e
                        \<lparr>operation = ''create_and_process'', ev_user_id = uid,
                         ev_document_id = Some did, ev_filename = Some fname,
                         ev_temp_s3_key = Some temp_s3_key\<rparr> w2 of
                   Inl x \<Rightarrow> failed x w2
                 | Inr w3 \<Rightarrow>
                     (Inr \<lparr>ur_success = True, ur_documentId = Some did,
                           ur_s3_key = Some temp_s3_key, ur_knowledge_base_id = None,
                           ur_sync_status = Some ''creating_knowledge_base'',
                           ur_message = ''Creating your personal Knowledge Base for '' @ fname @
                             ''. This will take 2-3 minutes for your first upload.'',
                           ur_isFirstUpload = Some True,
                           ur_estimatedTime = Some ''2-3 minutes''\<rparr>, w3))))"

definition process_document :: "env \<Rightarrow> string \<Rightarrow> string \<Rightarrow> string \<Rightarrow> world \<Rightarrow> upload_result \<times> world" where
  "process_document e pdf_content fname uid w =
     (let did = uuid4 e in
      case get_existing_user_kb e uid w of
        (existing_kb, w1) \<Rightarrow>
          (case (case existing_kb of
                   Some kb \<Rightarrow> process_with_existing_kb e pdf_content fname uid did kb w1
                 | None \<Rightarrow> start_async_kb_creation e pdf_content fname uid did w1) of
             (Inr r, w2) \<Rightarrow> (r, w2)
           | (Inl x, w2) \<Rightarrow>
               (\<lparr>ur_success = False, ur_documentId = None, ur_s3_key = None,
                 ur_knowledge_base_id = None, ur_sync_status = None,
                 ur_message = ''Document processing failed: '' @ str_exn x,
                 ur_isFirstUpload = None, ur_estimatedTime = None\<rparr>,
                logger_error (''Failed to process document '' @ fname @ '' for user '' @ uid @
                              '': '' @ str_exn x) w2)))"

subsection \<open>Deleting a document\<close>

text \<open>
  The S3 step of \<^verbatim>\<open>delete_document\<close>: a failing delete is logged and the deletion
  goes on.
\<close>

definition delete_from_s3 :: "env \<Rightarrow> string \<Rightarrow> document \<Rightarrow> world \<Rightarrow> world" where
  "delete_from_s3 e did doc w =
     (case py_or (s3_key doc) (s3Key doc) of
        None \<Rightarrow> logger_warning (''No S3 key found for document '' @ did) w
      | Some key \<Rightarrow>
          if key = [] then logger_warning (''No S3 key found for document '' @ did) w
          else (case s3_delete_object e key w of
                  Inr w1 \<Rightarrow> w1
                | Inl x \<Rightarrow> logger_error (''Error deleting from S3: '' @ str_exn x) w))"

text \<open>
  The last step: an ingestion job is started on the user's Knowledge Base so that the
  vectors of the deleted document go away. It is started only when the user's record is
  there and holds both ids; a failure is logged and the deletion still succeeds.
\<close>

definition sync_after_delete :: "env \<Rightarrow> string \<Rightarrow> string \<Rightarrow> world \<Rightarrow> world" where
  "sync_after_delete e did uid w =
     (let failed = (\<lambda>x w1.
            logger_warning
              ''Document deleted from S3 and DynamoDB, but vectors may remain in Knowledge Base until next sync''
              (logger_error (''Error triggering Knowledge Base sync: '' @ str_exn x) w1))
      in case kb_get_item e uid w of
           Inl x \<Rightarrow> failed x w
         | Inr None \<Rightarrow>
             logger_warning (''No Knowledge Base found for user '' @ uid @ '', cannot sync vectors'') w
         | Inr (Some kb_info) \<Rightarrow>
             (case (kb_knowledge_base_id kb_info, kb_data_source_id kb_info) of
                (Some kb_id, Some ds_id) \<Rightarrow>
                  if kb_id \<noteq> [] \<and> ds_id \<noteq> []
                  then (case start_ingestion_job e kb_id ds_id
                               (''Sync after deleting document '' @ did) w of
                          (Inr _, w1) \<Rightarrow> w1
                        | (Inl x, w1) \<Rightarrow> failed x w1)
                  else logger_warning
                         (''Missing KB info for user '' @ uid @ '', cannot sync vectors'') w
              | _ \<Rightarrow> logger_warning
                       (''Missing KB info for user '' @ uid @ '', cannot sync vectors'') w))"

definition delete_document :: "env \<Rightarrow> string \<Rightarrow> string \<Rightarrow> world \<Rightarrow> bool \<times> world" where
  "delete_document e did uid w =
     (case doc_get_item e did w of
        Inl x \<Rightarrow> (False, logger_error (''Error getting document from DynamoDB: '' @ str_exn x) w)
      | Inr None \<Rightarrow> (False, logger_error (''Document '' @ did @ '' not found in DynamoDB'') w)
      | Inr (Some doc) \<Rightarrow>
          if user_id doc \<noteq> Some uid
          then (False, logger_error
                  (''Document '' @ did @ '' does not belong to user '' @ uid @
                   '', belongs to '' @ str_opt (user_id doc)) w)
          else
            (let w1 = delete_from_s3 e did doc w in
             case doc_delete_item e did w1 of
               Inl x \<Rightarrow> (False, logger_error (''Error deleting from DynamoDB: '' @ str_exn x) w1)
             | Inr w2 \<Rightarrow> (True, sync_after_delete e did uid w2)))"

subsection \<open>The sync status of a document\<close>

text \<open>The dict \<^verbatim>\<open>get_sync_status\<close> returns.\<close>

record sync_status_result =
  ss_success :: bool
  ss_status :: "string option"
  ss_message :: string
  ss_lastUpdated :: "string option"

text \<open>
  \<^verbatim>\<open>lambda_client.invoke\<close> with InvocationType 'RequestResponse' and the operation
  'check\_ingestion\_status': the manager's handler runs before the call returns.
\<close>

definition lambda_invoke_check_ingestion_status ::
    "env \<Rightarrow> string \<Rightarrow> world \<Rightarrow> (exn + nat \<times> check_result) \<times> world" where
  "lambda_invoke_check_ingestion_status e uid w =
     (case fault e (LambdaInvoke ''check_ingestion_status'') of
        Some x \<Rightarrow> (Inl x, w)
      | None \<Rightarrow>
          (case lambda_handler_check_ingestion_status e uid
                  (w\<lparr>lambda_invocations := lambda_invocations w @
                       [(''RequestResponse'',
                         \<lparr>operation = ''check_ingestion_status'', ev_user_id = uid,
                          ev_document_id = None, ev_filename = None, ev_temp_s3_key = None\<rparr>)]\<rparr>) of
             (r, w1) \<Rightarrow> (Inr r, w1)))"

definition current_status_of :: "document \<Rightarrow> string" where
  "current_status_of doc = (case sync_status doc of None \<Rightarrow> ''unknown'' | Some s \<Rightarrow> s)"

definition get_sync_status :: "env \<Rightarrow> string \<Rightarrow> string \<Rightarrow> world \<Rightarrow> sync_status_result \<times> world" where
  "get_sync_status e did uid w =
     (let not_found = \<lparr>ss_success = False, ss_status = None, ss_message = ''Document not found'',
                       ss_lastUpdated = None\<rparr>;
          answer = (\<lambda>doc. \<lparr>ss_success = True, ss_status = Some (current_status_of doc),
                            ss_message = (case message doc of None \<Rightarrow> [] | Some m \<Rightarrow> m),
                            ss_lastUpdated = Some (case last_modified doc of None \<Rightarrow> [] | Some t \<Rightarrow> t)\<rparr>)
      in case doc_get_item e did w of
           Inl x \<Rightarrow>
             (\<lparr>ss_success = False, ss_status = None,
               ss_message = ''Error getting sync status: '' @ str_exn x, ss_lastUpdated = None\<rparr>,
              logger_error (''Error getting sync status: '' @ str_exn x) w)
         | Inr None \<Rightarrow> (not_found, w)
         | Inr (Some doc) \<Rightarrow>
             if user_id doc \<noteq> Some uid then (not_found, w)
             else if current_status_of doc = ''processing''
             then (case lambda_invoke_check_ingestion_status e uid w of
                     (Inl x, w1) \<Rightarrow> (answer doc, w1)
                   | (Inr _, w1) \<Rightarrow>
                       (case doc_get_item e did w1 of
                          Inl x \<Rightarrow> (answer doc, w1)
                        | Inr None \<Rightarrow> (answer doc, w1)
                        | Inr (Some doc') \<Rightarrow> (answer doc', w1)))
             else (answer doc, w))"

section \<open>Frames\<close>

text \<open>
  The reconciler writes to the documents table and to the log, and to nothing else: two
  worlds are related when every other component is the same.
\<close>

definition same_but_documents_and_log :: "world \<Rightarrow> world \<Rightarrow> bool" where
  "same_but_documents_and_log w w' =
     (user_kb_table w' = user_kb_table w \<and> documents_bucket w' = documents_bucket w
      \<and> vector_buckets w' = vector_buckets w \<and> vector_indexes w' = vector_indexes w
      \<and> knowledge_bases w' = knowledge_bases w \<and> data_sources w' = data_sources w
      \<and> ingestion_jobs w' = ingestion_jobs w
      \<and> start_ingestion_job_calls w' = start_ingestion_job_calls w
      \<and> lambda_invocations w' = lambda_invocations w)"



text \<open>The number of documents whose status is 'completed'.\<close>

definition completed_count :: "document list \<Rightarrow> nat" where
  "completed_count tbl = length (filter (\<lambda>d. sync_status d = Some ''completed'') tbl)"

section \<open>Example worlds\<close>

text \<open>
  A small world used to run the operations on concrete inputs: the user alice has a
  Knowledge Base KB1 with data source DS1, bob has none. The provider lists a COMPLETE
  job job-1, a FAILED job job-2 and a running job job-3.
\<close>

definition no_faults :: "aws_call \<Rightarrow> exn option" where
  "no_faults c = None"

definition env0 :: env where
  "env0 =
     \<lparr>fault = no_faults, utcnow = ''2025-01-01T00:00:00'', time_time = 1735689600,
      uuid4 = ''doc-9'', md5_hexdigest = (\<lambda>s. ''a1b2c3d4e5f60718293a4b5c6d7e8f90''),
      new_knowledgeBaseId = ''KB2'', new_dataSourceId = ''DS2'',
      new_ingestionJobId = (\<lambda>n. ''job-new-'' @ str_nat n)\<rparr>"

definition ThrottlingException :: exn where
  "ThrottlingException = Exn ''ThrottlingException'' ''Rate exceeded''"

definition alice_kb :: user_kb where
  "alice_kb =
     \<lparr>kb_user_id = Some ''alice'', kb_knowledge_base_id = Some ''KB1'',
      kb_data_source_id = Some ''DS1'', vector_bucket_name = Some ''ai-ppt-vectors-a1b2c3d4-1'',
      vector_index_name = Some ''ai-ppt-index-a1b2c3d4'', kb_name = Some ''ai-ppt-kb-a1b2c3d4-1'',
      user_hash = Some ''a1b2c3d4'', created_at = Some ''2024-12-01T00:00:00'',
      status = Some ''active'', document_count = Some 0, storage_type = Some ''s3_vectors''\<rparr>"

definition example_doc :: "string \<Rightarrow> string \<Rightarrow> string \<Rightarrow> string \<Rightarrow> string option \<Rightarrow> document" where
  "example_doc did uid key st job =
     (empty_document did)
       \<lparr>user_id := Some uid, s3_key := Some key, filename := Some ''a.pdf'',
        sync_status := Some st, ingestion_job_id := job\<rparr>"

definition example_object :: s3_object where
  "example_object = \<lparr>body = ''%PDF'', ContentType = ''application/pdf'', Metadata = []\<rparr>"

definition example_job :: "string \<Rightarrow> string \<Rightarrow> string list \<Rightarrow> ingestion_job" where
  "example_job jid st reasons =
     \<lparr>ingestionJobId = jid, job_knowledgeBaseId = ''KB1'', job_dataSourceId = ''DS1'',
      job_status = st, job_description = ''Ingestion job'', failureReasons = reasons\<rparr>"

definition world0 :: world where
  "world0 =
     \<lparr>documents_table =
        [example_doc ''doc-1'' ''alice'' ''docs/a1b2c3d4/doc-1/a.pdf'' ''processing'' (Some ''job-1''),
         example_doc ''doc-2'' ''alice'' ''docs/a1b2c3d4/doc-2/a.pdf'' ''processing'' (Some ''job-2''),
         example_doc ''doc-3'' ''alice'' ''docs/a1b2c3d4/doc-3/a.pdf'' ''syncing'' (Some ''job-1''),
         example_doc ''doc-4'' ''bob'' ''pending/bob/doc-4/a.pdf'' ''creating_knowledge_base'' None],
      user_kb_table = [alice_kb],
      documents_bucket =
        [(''docs/a1b2c3d4/doc-1/a.pdf'', example_object),
         (''docs/a1b2c3d4/doc-2/a.pdf'', example_object),
         (''docs/a1b2c3d4/doc-3/a.pdf'', example_object),
         (''pending/bob/doc-4/a.pdf'', example_object)],
      vector_buckets = [''ai-ppt-vectors-a1b2c3d4-1''],
      vector_indexes = [(''ai-ppt-vectors-a1b2c3d4-1'', ''ai-ppt-index-a1b2c3d4'')],
      knowledge_bases = [(''KB1'', ''ai-ppt-kb-a1b2c3d4-1'')],
      data_sources =
        [\<lparr>dataSourceId = ''DS1'', ds_knowledgeBaseId = ''KB1'', ds_name = ''ai-ppt-docs-a1b2c3d4'',
          inclusionPrefixes = [''docs/a1b2c3d4/'']\<rparr>],
      ingestion_jobs =
        [example_job ''job-1'' ''COMPLETE'' [],
         example_job ''job-2'' ''FAILED'' [''Access denied to the data source''],
         example_job ''job-3'' ''IN_PROGRESS'' []],
      start_ingestion_job_calls = [],
      lambda_invocations = [],
      log = []\<rparr>"

text \<open>An environment in which one call raises and every other call goes through.\<close>

definition env_failing :: "aws_call \<Rightarrow> env" where
  "env_failing c = env0\<lparr>fault := (\<lambda>c'. if c' = c then Some ThrottlingException else None)\<rparr>"

text \<open>
  A world in which alice's Knowledge Base exists and two of her uploads still lie under
  \<open>pending/alice/\<close>.
\<close>

definition world_pending :: world where
  "world_pending =
     world0
       \<lparr>documents_table :=
          [example_doc ''doc-5'' ''alice'' ''pending/alice/doc-5/a.pdf'' ''creating_knowledge_base'' None,
           example_doc ''doc-6'' ''alice'' ''pending/alice/doc-6/b.pdf'' ''creating_knowledge_base'' None],
        documents_bucket :=
          [(''pending/alice/doc-5/a.pdf'', example_object),
           (''pending/alice/doc-6/b.pdf'', example_object)],
        ingestion_jobs := []\<rparr>"

text \<open>An environment in which two calls raise and every other call goes through.\<close>

definition env_failing2 :: "aws_call \<Rightarrow> aws_call \<Rightarrow> env" where
  "env_failing2 c1 c2 =
     env0\<lparr>fault := (\<lambda>c'. if c' = c1 \<or> c' = c2 then Some ThrottlingException else None)\<rparr>"

section \<open>Properties\<close>

text \<open>The definitions of the example worlds, unfolded when an operation is run on them.\<close>

lemmas example_defs =
  env0_def env_failing_def no_faults_def world0_def alice_kb_def example_doc_def
  example_object_def example_job_def empty_document_def ThrottlingException_def

subsection \<open>Tables\<close>

lemma find_table_put:
  "find (\<lambda>y. key y = key x) (table_put key x tbl) = Some x"
proof (cases "list_ex (\<lambda>y. key y = key x) tbl")
  case True
  then have "find (\<lambda>y. key y = key x) (map (\<lambda>y. if key y = key x then x else y) tbl) = Some x"
    by (induction tbl) auto
  with True show ?thesis by (simp add: table_put_def)
next
  case False
  then have "find (\<lambda>y. key y = key x) (tbl @ [x]) = Some x"
    by (induction tbl) auto
  with False show ?thesis by (simp add: table_put_def)
qed

lemma find_table_update:
  assumes "find (\<lambda>y. key y = k) tbl = Some y" and "\<And>z. key (f z) = key z"
  shows "find (\<lambda>y. key y = k) (table_update key k fresh f tbl) = Some (f y)"
proof -
  from assms(1) have ex: "list_ex (\<lambda>y. key y = k) tbl"
    by (induction tbl) (auto split: if_splits)
  from assms have "find (\<lambda>y. key y = k) (map (\<lambda>y. if key y = k then f y else y) tbl) = Some (f y)"
    by (induction tbl) (auto split: if_splits)
  with ex show ?thesis by (simp add: table_update_def)
qed

lemma find_table_delete:
  "find (\<lambda>y. key y = k) (table_delete key k tbl) = None"
  by (induction tbl) (auto simp: table_delete_def)

subsection \<open>Deleting a document\<close>

lemma delete_from_s3_frame:
  "documents_table (delete_from_s3 e did doc w) = documents_table w"
  "user_kb_table (delete_from_s3 e did doc w) = user_kb_table w"
  "start_ingestion_job_calls (delete_from_s3 e did doc w) = start_ingestion_job_calls w"
  by (auto simp: delete_from_s3_def logger_warning_def logger_error_def s3_delete_object_def
      split: option.splits sum.splits)

text \<open>
  Claim C3. Deleting a document whose stored \<open>user_id\<close> is not the caller's fails:
  \<^verbatim>\<open>delete_document\<close> returns False, the S3 object and the document's item stay, no
  ingestion job is requested, and (when the item could be read) the error logged is the
  ownership error, which names the caller and the owner.
\<close>

theorem delete_document_other_tenant:
  assumes "find (\<lambda>d. document_id d = did) (documents_table w) = Some doc"
      and "user_id doc \<noteq> Some uid"
  shows "fst (delete_document e did uid w) = False
       \<and> documents_bucket (snd (delete_document e did uid w)) = documents_bucket w
       \<and> documents_table (snd (delete_document e did uid w)) = documents_table w
       \<and> start_ingestion_job_calls (snd (delete_document e did uid w)) = start_ingestion_job_calls w
       \<and> (fault e (DocGetItem did) = None \<longrightarrow>
            log (snd (delete_document e did uid w)) =
              log w @ [LogError (''Document '' @ did @ '' does not belong to user '' @ uid @
                                 '', belongs to '' @ str_opt (user_id doc))])"
  using assms
  by (cases "fault e (DocGetItem did)")
     (simp_all add: delete_document_def doc_get_item_def logger_error_def)

theorem delete_document_other_tenant_witness:
  "find (\<lambda>d. document_id d = ''doc-1'') (documents_table world0) =
     Some (example_doc ''doc-1'' ''alice'' ''docs/a1b2c3d4/doc-1/a.pdf'' ''processing'' (Some ''job-1''))
   \<and> user_id (example_doc ''doc-1'' ''alice'' ''docs/a1b2c3d4/doc-1/a.pdf'' ''processing'' (Some ''job-1''))
       \<noteq> Some ''bob''
   \<and> fst (delete_document env0 ''doc-1'' ''bob'' world0) = False
   \<and> documents_bucket (snd (delete_document env0 ''doc-1'' ''bob'' world0)) = documents_bucket world0
   \<and> documents_table (snd (delete_document env0 ''doc-1'' ''bob'' world0)) = documents_table world0
   \<and> log (snd (delete_document env0 ''doc-1'' ''bob'' world0)) =
       [LogError ''Document doc-1 does not belong to user bob, belongs to alice'']"
proof -
  have h1: "find (\<lambda>d. document_id d = ''doc-1'') (documents_table world0) =
     Some (example_doc ''doc-1'' ''alice'' ''docs/a1b2c3d4/doc-1/a.pdf'' ''processing'' (Some ''job-1''))"
    by (simp add: world0_def example_doc_def empty_document_def)
  have h2: "user_id (example_doc ''doc-1'' ''alice'' ''docs/a1b2c3d4/doc-1/a.pdf'' ''processing'' (Some ''job-1''))
       \<noteq> Some ''bob''"
    by (simp add: example_doc_def empty_document_def)
  have f: "fault env0 (DocGetItem ''doc-1'') = None"
    by (simp add: env0_def no_faults_def)
  have l: "log world0 = []" by (simp add: world0_def)
  from delete_document_other_tenant [OF h1 h2, of env0] f l h1 h2 show ?thesis
    by (simp add: example_doc_def empty_document_def str_opt_def)
qed

lemma sync_after_delete_frame:
  "documents_table (sync_after_delete e did uid w) = documents_table w"
  "user_kb_table (sync_after_delete e did uid w) = user_kb_table w"
  "documents_bucket (sync_after_delete e did uid w) = documents_bucket w"
  by (auto simp: sync_after_delete_def logger_warning_def logger_error_def start_ingestion_job_def
      kb_get_item_def Let_def split: option.splits sum.splits prod.splits if_splits)

lemma sync_after_delete_calls:
  "start_ingestion_job_calls (sync_after_delete e did uid w) =
     start_ingestion_job_calls w @
       (case kb_get_item e uid w of
          Inr (Some kb_info) \<Rightarrow>
            (case (kb_knowledge_base_id kb_info, kb_data_source_id kb_info) of
               (Some kb_id, Some ds_id) \<Rightarrow>
                 if kb_id \<noteq> [] \<and> ds_id \<noteq> []
                 then [(kb_id, ds_id, ''Sync after deleting document '' @ did)] else []
             | _ \<Rightarrow> [])
        | _ \<Rightarrow> [])"
  by (auto simp: sync_after_delete_def logger_warning_def logger_error_def start_ingestion_job_def
      Let_def split: option.splits sum.splits prod.splits if_splits)

text \<open>
  Claim C2, as the code has it. When the caller owns the document and its item can be read
  and deleted, \<^verbatim>\<open>delete_document\<close> returns True and the item is gone, whatever the S3
  delete does (no hypothesis is made on it). The resync job is requested on the user's
  Knowledge Base when the user's record can be read and holds a non-empty
  \<open>knowledge_base_id\<close> and \<open>data_source_id\<close>; a user without a record gets no request
  and the deletion still succeeds.
\<close>

theorem delete_document_owner:
  assumes "find (\<lambda>d. document_id d = did) (documents_table w) = Some doc"
      and "user_id doc = Some uid"
      and "fault e (DocGetItem did) = None"
      and "fault e (DocDeleteItem did) = None"
  shows "fst (delete_document e did uid w) = True
       \<and> find (\<lambda>d. document_id d = did) (documents_table (snd (delete_document e did uid w))) = None
       \<and> (\<forall>kb_info kb_id ds_id.
             fault e (KbGetItem uid) = None
             \<and> find (\<lambda>i. kb_user_id i = Some uid) (user_kb_table w) = Some kb_info
             \<and> kb_knowledge_base_id kb_info = Some kb_id \<and> kb_id \<noteq> []
             \<and> kb_data_source_id kb_info = Some ds_id \<and> ds_id \<noteq> [] \<longrightarrow>
             start_ingestion_job_calls (snd (delete_document e did uid w)) =
               start_ingestion_job_calls w @ [(kb_id, ds_id, ''Sync after deleting document '' @ did)])
       \<and> (find (\<lambda>i. kb_user_id i = Some uid) (user_kb_table w) = None \<longrightarrow>
             start_ingestion_job_calls (snd (delete_document e did uid w)) =
               start_ingestion_job_calls w)"
proof -
  let ?w1 = "delete_from_s3 e did doc w"
  let ?w2 = "?w1\<lparr>documents_table := table_delete document_id did (documents_table ?w1)\<rparr>"
  have r: "delete_document e did uid w = (True, sync_after_delete e did uid ?w2)"
    using assms by (simp add: delete_document_def doc_get_item_def doc_delete_item_def Let_def)
  have k: "kb_get_item e uid ?w2 = kb_get_item e uid w"
    by (cases "fault e (KbGetItem uid)") (simp_all add: kb_get_item_def delete_from_s3_frame)
  have c: "start_ingestion_job_calls ?w2 = start_ingestion_job_calls w"
    by (simp add: delete_from_s3_frame)
  have cs: "start_ingestion_job_calls (sync_after_delete e did uid ?w2) =
     start_ingestion_job_calls w @
       (case kb_get_item e uid w of
          Inr (Some kb_info) \<Rightarrow>
            (case (kb_knowledge_base_id kb_info, kb_data_source_id kb_info) of
               (Some kb_id, Some ds_id) \<Rightarrow>
                 if kb_id \<noteq> [] \<and> ds_id \<noteq> []
                 then [(kb_id, ds_id, ''Sync after deleting document '' @ did)] else []
             | _ \<Rightarrow> [])
        | _ \<Rightarrow> [])"
    by (simp only: sync_after_delete_calls k c)
  have d: "find (\<lambda>d. document_id d = did) (documents_table (sync_after_delete e did uid ?w2)) = None"
    by (simp add: sync_after_delete_frame find_table_delete)
  show ?thesis
    unfolding r fst_conv snd_conv cs
    using d by (cases "fault e (KbGetItem uid)") (auto simp: kb_get_item_def)
qed


theorem delete_document_owner_witness:
  "find (\<lambda>d. document_id d = ''doc-1'') (documents_table world0) =
     Some (example_doc ''doc-1'' ''alice'' ''docs/a1b2c3d4/doc-1/a.pdf'' ''processing'' (Some ''job-1''))
   \<and> fault (env_failing (S3DeleteObject ''docs/a1b2c3d4/doc-1/a.pdf''))
         (S3DeleteObject ''docs/a1b2c3d4/doc-1/a.pdf'') = Some ThrottlingException
   \<and> fst (delete_document (env_failing (S3DeleteObject ''docs/a1b2c3d4/doc-1/a.pdf''))
            ''doc-1'' ''alice'' world0) = True
   \<and> find (\<lambda>d. document_id d = ''doc-1'')
         (documents_table (snd (delete_document (env_failing (S3DeleteObject ''docs/a1b2c3d4/doc-1/a.pdf''))
            ''doc-1'' ''alice'' world0))) = None
   \<and> start_ingestion_job_calls
         (snd (delete_document (env_failing (S3DeleteObject ''docs/a1b2c3d4/doc-1/a.pdf''))
            ''doc-1'' ''alice'' world0)) =
       [(''KB1'', ''DS1'', ''Sync after deleting document doc-1'')]"
proof -
  let ?e = "env_failing (S3DeleteObject ''docs/a1b2c3d4/doc-1/a.pdf'')"
  let ?doc = "example_doc ''doc-1'' ''alice'' ''docs/a1b2c3d4/doc-1/a.pdf'' ''processing'' (Some ''job-1'')"
  have h1: "find (\<lambda>d. document_id d = ''doc-1'') (documents_table world0) = Some ?doc"
    by (simp add: example_defs)
  have h2: "user_id ?doc = Some ''alice''" by (simp add: example_defs)
  have h3: "fault ?e (DocGetItem ''doc-1'') = None" by (simp add: example_defs)
  have h4: "fault ?e (DocDeleteItem ''doc-1'') = None" by (simp add: example_defs)
  have f: "fault ?e (S3DeleteObject ''docs/a1b2c3d4/doc-1/a.pdf'') = Some ThrottlingException"
    by (simp add: example_defs)
  have k: "fault ?e (KbGetItem ''alice'') = None
       \<and> find (\<lambda>i. kb_user_id i = Some ''alice'') (user_kb_table world0) = Some alice_kb
       \<and> kb_knowledge_base_id alice_kb = Some ''KB1'' \<and> ''KB1'' \<noteq> []
       \<and> kb_data_source_id alice_kb = Some ''DS1'' \<and> ''DS1'' \<noteq> []"
    by (simp add: example_defs)
  have c: "start_ingestion_job_calls world0 = []" by (simp add: world0_def)
  from delete_document_owner [OF h1 h2 h3 h4] k c
  have "fst (delete_document ?e ''doc-1'' ''alice'' world0) = True
      \<and> find (\<lambda>d. document_id d = ''doc-1'')
           (documents_table (snd (delete_document ?e ''doc-1'' ''alice'' world0))) = None
      \<and> start_ingestion_job_calls (snd (delete_document ?e ''doc-1'' ''alice'' world0)) =
           [(''KB1'', ''DS1'', ''Sync after deleting document doc-1'')]"
    by (metis append_Nil append_Cons)
  with h1 f show ?thesis by blast
qed

text \<open>
  Claim C2 as stated fails for an owner who has no Knowledge Base yet: bob's document,
  uploaded on the slow path, is deleted with success and no ingestion job is requested.
\<close>

theorem delete_document_no_resync_counterexample:
  "find (\<lambda>d. document_id d = ''doc-4'') (documents_table world0) =
     Some (example_doc ''doc-4'' ''bob'' ''pending/bob/doc-4/a.pdf'' ''creating_knowledge_base'' None)
   \<and> fst (delete_document env0 ''doc-4'' ''bob'' world0) = True
   \<and> find (\<lambda>d. document_id d = ''doc-4'')
         (documents_table (snd (delete_document env0 ''doc-4'' ''bob'' world0))) = None
   \<and> start_ingestion_job_calls (snd (delete_document env0 ''doc-4'' ''bob'' world0)) = []
   \<and> ingestion_jobs (snd (delete_document env0 ''doc-4'' ''bob'' world0)) = ingestion_jobs world0"
  by (simp add: delete_document_def doc_get_item_def doc_delete_item_def delete_from_s3_def
      sync_after_delete_def kb_get_item_def s3_delete_object_def table_delete_def py_or_def
      truthy_def logger_warning_def example_defs)

subsection \<open>Asking for the sync status\<close>

text \<open>
  Claim C7, as the code has it. For a document of the caller that the documents table
  returns (the read does not raise), what \<^verbatim>\<open>get_sync_status\<close> does depends on the stored
  status alone.

  \<^item> The stored status is 'processing' and the invocation of the manager does not raise: the
    reconciler is run before the answer. The world \<^verbatim>\<open>get_sync_status\<close> leaves is the one
    the manager's handler for 'check\_ingestion\_status' leaves after the invocation is
    recorded (for a non-empty user id, the one \<^verbatim>\<open>check_ingestion_status\<close> leaves), the
    answer is a success and the status answered is the one the document has after that run
    ('processing' when the document is no longer there).
  \<^item> The stored status is 'processing' and the invocation raises: the answer is a success
    with the status 'processing', and the world is unchanged.
  \<^item> The stored status is anything else, 'syncing' and 'creating\_knowledge\_base' among
    them: the answer is a success with the stored status ('unknown' when none is stored),
    nothing is invoked and the world is unchanged.
\<close>

theorem get_sync_status_reconciles_processing_only:
  assumes "find (\<lambda>d. document_id d = did) (documents_table w) = Some doc"
      and "user_id doc = Some uid"
      and "fault e (DocGetItem did) = None"
  shows "(sync_status doc = Some ''processing''
          \<and> fault e (LambdaInvoke ''check_ingestion_status'') = None \<longrightarrow>
            snd (get_sync_status e did uid w) =
              snd (lambda_handler_check_ingestion_status e uid
                     (w\<lparr>lambda_invocations := lambda_invocations w @
                          [(''RequestResponse'',
                            \<lparr>operation = ''check_ingestion_status'', ev_user_id = uid,
                             ev_document_id = None, ev_filename = None, ev_temp_s3_key = None\<rparr>)]\<rparr>))
          \<and> (uid \<noteq> [] \<longrightarrow>
               snd (get_sync_status e did uid w) =
                 snd (check_ingestion_status e uid
                        (w\<lparr>lambda_invocations := lambda_invocations w @
                             [(''RequestResponse'',
                               \<lparr>operation = ''check_ingestion_status'', ev_user_id = uid,
                                ev_document_id = None, ev_filename = None, ev_temp_s3_key = None\<rparr>)]\<rparr>)))
          \<and> ss_success (fst (get_sync_status e did uid w))
          \<and> ss_status (fst (get_sync_status e did uid w)) =
              Some (case find (\<lambda>d. document_id d = did)
                           (documents_table (snd (get_sync_status e did uid w))) of
                      None \<Rightarrow> ''processing''
                    | Some doc' \<Rightarrow> current_status_of doc'))
       \<and> (sync_status doc = Some ''processing''
          \<and> fault e (LambdaInvoke ''check_ingestion_status'') \<noteq> None \<longrightarrow>
            snd (get_sync_status e did uid w) = w
          \<and> ss_success (fst (get_sync_status e did uid w))
          \<and> ss_status (fst (get_sync_status e did uid w)) = Some ''processing'')
       \<and> (sync_status doc \<noteq> Some ''processing'' \<longrightarrow>
            snd (get_sync_status e did uid w) = w
          \<and> ss_success (fst (get_sync_status e did uid w))
          \<and> ss_status (fst (get_sync_status e did uid w)) = Some (current_status_of doc))"
proof -
  let ?w0 = "w\<lparr>lambda_invocations := lambda_invocations w @
                       [(''RequestResponse'',
                         \<lparr>operation = ''check_ingestion_status'', ev_user_id = uid,
                          ev_document_id = None, ev_filename = None, ev_temp_s3_key = None\<rparr>)]\<rparr>"
  let ?r = "get_sync_status e did uid w"
  have A: "snd ?r = snd (lambda_handler_check_ingestion_status e uid ?w0)
          \<and> (uid \<noteq> [] \<longrightarrow> snd ?r = snd (check_ingestion_status e uid ?w0))
          \<and> ss_success (fst ?r)
          \<and> ss_status (fst ?r) =
              Some (case find (\<lambda>d. document_id d = did) (documents_table (snd ?r)) of
                      None \<Rightarrow> ''processing''
                    | Some doc' \<Rightarrow> current_status_of doc')"
    if p: "sync_status doc = Some ''processing''"
      and i: "fault e (LambdaInvoke ''check_ingestion_status'') = None"
  proof -
    obtain r w1 where h: "lambda_handler_check_ingestion_status e uid ?w0 = (r, w1)"
      by (cases "lambda_handler_check_ingestion_status e uid ?w0")
    have c: "current_status_of doc = ''processing''"
      using p by (simp add: current_status_of_def)
    have g: "get_sync_status e did uid w =
        (case find (\<lambda>d. document_id d = did) (documents_table w1) of
           None \<Rightarrow> (\<lparr>ss_success = True, ss_status = Some (current_status_of doc),
                      ss_message = (case message doc of None \<Rightarrow> [] | Some m \<Rightarrow> m),
                      ss_lastUpdated = Some (case last_modified doc of None \<Rightarrow> [] | Some t \<Rightarrow> t)\<rparr>, w1)
         | Some doc' \<Rightarrow> (\<lparr>ss_success = True, ss_status = Some (current_status_of doc'),
                      ss_message = (case message doc' of None \<Rightarrow> [] | Some m \<Rightarrow> m),
                      ss_lastUpdated = Some (case last_modified doc' of None \<Rightarrow> [] | Some t \<Rightarrow> t)\<rparr>, w1))"
      using assms c h i
      by (simp add: get_sync_status_def doc_get_item_def lambda_invoke_check_ingestion_status_def
          Let_def)
    have u: "uid \<noteq> [] \<Longrightarrow> snd (check_ingestion_status e uid ?w0) = w1"
      using h by (simp add: lambda_handler_check_ingestion_status_def split: prod.splits)
    show ?thesis
      using c u by (simp add: g h split: option.splits)
  qed
  have B: "snd ?r = w \<and> ss_success (fst ?r) \<and> ss_status (fst ?r) = Some ''processing''"
    if p: "sync_status doc = Some ''processing''"
      and i: "fault e (LambdaInvoke ''check_ingestion_status'') \<noteq> None"
  proof -
    from i obtain x where x: "fault e (LambdaInvoke ''check_ingestion_status'') = Some x"
      by blast
    show ?thesis
      using assms p x
      by (simp add: get_sync_status_def doc_get_item_def lambda_invoke_check_ingestion_status_def
          current_status_of_def Let_def)
  qed
  have C: "snd ?r = w \<and> ss_success (fst ?r) \<and> ss_status (fst ?r) = Some (current_status_of doc)"
    if n: "sync_status doc \<noteq> Some ''processing''"
  proof -
    have c: "current_status_of doc \<noteq> ''processing''"
      using n by (cases "sync_status doc") (auto simp add: current_status_of_def)
    show ?thesis
      using assms c by (simp add: get_sync_status_def doc_get_item_def Let_def)
  qed
  from A B C show ?thesis by blast
qed

lemma check_ingestion_status_world0:
  assumes "documents_table w = documents_table world0"
      and "user_kb_table w = user_kb_table world0"
      and "ingestion_jobs w = ingestion_jobs world0"
  shows "check_ingestion_status env0 ''alice'' w =
           (CheckSuccess 2 ''Updated 2 document statuses'',
            w\<lparr>documents_table :=
                [set_completed env0 (example_doc ''doc-1'' ''alice'' ''docs/a1b2c3d4/doc-1/a.pdf'' ''processing'' (Some ''job-1'')),
                 set_failed env0 (example_doc ''doc-2'' ''alice'' ''docs/a1b2c3d4/doc-2/a.pdf'' ''processing'' (Some ''job-2'')),
                 set_completed env0 (example_doc ''doc-3'' ''alice'' ''docs/a1b2c3d4/doc-3/a.pdf'' ''syncing'' (Some ''job-1'')),
                 example_doc ''doc-4'' ''bob'' ''pending/bob/doc-4/a.pdf'' ''creating_knowledge_base'' None]\<rparr>)"
  using assms
  by (simp add: check_ingestion_status_def get_user_kb_from_db_def kb_get_item_def
      list_ingestion_jobs_def check_job_def doc_scan_def filter_expression_def
      doc_update_item_def table_update_def set_completed_def set_failed_def Let_def example_defs
      str_nat.simps)


theorem get_sync_status_reconciles_processing_only_witness:
  "find (\<lambda>d. document_id d = ''doc-1'') (documents_table world0) =
     Some (example_doc ''doc-1'' ''alice'' ''docs/a1b2c3d4/doc-1/a.pdf'' ''processing'' (Some ''job-1''))
   \<and> ss_status (fst (get_sync_status env0 ''doc-1'' ''alice'' world0)) = Some ''completed''
   \<and> lambda_invocations (snd (get_sync_status env0 ''doc-1'' ''alice'' world0)) =
       [(''RequestResponse'',
         \<lparr>operation = ''check_ingestion_status'', ev_user_id = ''alice'',
          ev_document_id = None, ev_filename = None, ev_temp_s3_key = None\<rparr>)]
   \<and> fault (env_failing (LambdaInvoke ''check_ingestion_status''))
        (LambdaInvoke ''check_ingestion_status'') = Some ThrottlingException
   \<and> snd (get_sync_status (env_failing (LambdaInvoke ''check_ingestion_status''))
            ''doc-1'' ''alice'' world0) = world0
   \<and> ss_status (fst (get_sync_status (env_failing (LambdaInvoke ''check_ingestion_status''))
                        ''doc-1'' ''alice'' world0)) = Some ''processing''
   \<and> find (\<lambda>d. document_id d = ''doc-3'') (documents_table world0) =
       Some (example_doc ''doc-3'' ''alice'' ''docs/a1b2c3d4/doc-3/a.pdf'' ''syncing'' (Some ''job-1''))
   \<and> snd (get_sync_status env0 ''doc-3'' ''alice'' world0) = world0
   \<and> ss_status (fst (get_sync_status env0 ''doc-3'' ''alice'' world0)) = Some ''syncing''"
proof -
  let ?doc = "example_doc ''doc-1'' ''alice'' ''docs/a1b2c3d4/doc-1/a.pdf'' ''processing'' (Some ''job-1'')"
  let ?doc3 = "example_doc ''doc-3'' ''alice'' ''docs/a1b2c3d4/doc-3/a.pdf'' ''syncing'' (Some ''job-1'')"
  let ?e = "env_failing (LambdaInvoke ''check_ingestion_status'')"
  let ?w0 = "world0\<lparr>lambda_invocations := lambda_invocations world0 @
                       [(''RequestResponse'',
                         \<lparr>operation = ''check_ingestion_status'', ev_user_id = ''alice'',
                          ev_document_id = None, ev_filename = None, ev_temp_s3_key = None\<rparr>)]\<rparr>"
  have h1: "find (\<lambda>d. document_id d = ''doc-1'') (documents_table world0) = Some ?doc"
    by (simp add: example_defs)
  have h2: "user_id ?doc = Some ''alice''" by (simp add: example_defs)
  have h3: "sync_status ?doc = Some ''processing''" by (simp add: example_defs)
  have h4: "fault env0 (DocGetItem ''doc-1'') = None" by (simp add: example_defs)
  have h5: "fault env0 (LambdaInvoke ''check_ingestion_status'') = None" by (simp add: example_defs)
  from get_sync_status_reconciles_processing_only [OF h1 h2 h4] h3 h5
  have t: "snd (get_sync_status env0 ''doc-1'' ''alice'' world0) =
              snd (lambda_handler_check_ingestion_status env0 ''alice'' ?w0)
          \<and> (''alice'' \<noteq> [] \<longrightarrow>
               snd (get_sync_status env0 ''doc-1'' ''alice'' world0) =
                 snd (check_ingestion_status env0 ''alice'' ?w0))
          \<and> ss_success (fst (get_sync_status env0 ''doc-1'' ''alice'' world0))
          \<and> ss_status (fst (get_sync_status env0 ''doc-1'' ''alice'' world0)) =
              Some (case find (\<lambda>d. document_id d = ''doc-1'')
                           (documents_table (snd (get_sync_status env0 ''doc-1'' ''alice'' world0))) of
                      None \<Rightarrow> ''processing''
                    | Some doc' \<Rightarrow> current_status_of doc')"
    by blast
  have w: "snd (get_sync_status env0 ''doc-1'' ''alice'' world0) =
             snd (check_ingestion_status env0 ''alice'' ?w0)"
  proof -
    have ne: "''alice'' \<noteq> []" by simp
    from t ne show ?thesis by blast
  qed
  have c: "snd (check_ingestion_status env0 ''alice'' ?w0) =
      ?w0\<lparr>documents_table :=
                [set_completed env0 ?doc,
                 set_failed env0 (example_doc ''doc-2'' ''alice'' ''docs/a1b2c3d4/doc-2/a.pdf'' ''processing'' (Some ''job-2'')),
                 set_completed env0 ?doc3,
                 example_doc ''doc-4'' ''bob'' ''pending/bob/doc-4/a.pdf'' ''creating_knowledge_base'' None]\<rparr>"
    by (subst check_ingestion_status_world0) simp_all
  have s: "ss_status (fst (get_sync_status env0 ''doc-1'' ''alice'' world0)) = Some ''completed''"
    using t unfolding w c
    by (simp add: set_completed_def current_status_of_def example_doc_def empty_document_def)
  have l: "lambda_invocations (snd (get_sync_status env0 ''doc-1'' ''alice'' world0)) =
       [(''RequestResponse'',
         \<lparr>operation = ''check_ingestion_status'', ev_user_id = ''alice'',
          ev_document_id = None, ev_filename = None, ev_temp_s3_key = None\<rparr>)]"
    unfolding w c by (simp add: world0_def)
  have g4: "fault ?e (DocGetItem ''doc-1'') = None" by (simp add: example_defs)
  have g5: "fault ?e (LambdaInvoke ''check_ingestion_status'') = Some ThrottlingException"
    by (simp add: example_defs)
  have g5': "fault ?e (LambdaInvoke ''check_ingestion_status'') \<noteq> None"
    by (simp add: example_defs)
  from get_sync_status_reconciles_processing_only [OF h1 h2 g4] h3 g5'
  have b: "snd (get_sync_status ?e ''doc-1'' ''alice'' world0) = world0
         \<and> ss_status (fst (get_sync_status ?e ''doc-1'' ''alice'' world0)) = Some ''processing''"
    by blast
  have k1: "find (\<lambda>d. document_id d = ''doc-3'') (documents_table world0) = Some ?doc3"
    by (simp add: example_defs)
  have k2: "user_id ?doc3 = Some ''alice''" by (simp add: example_defs)
  have k3: "sync_status ?doc3 \<noteq> Some ''processing''" by (simp add: example_defs)
  have k4: "fault env0 (DocGetItem ''doc-3'') = None" by (simp add: example_defs)
  have k5: "current_status_of ?doc3 = ''syncing''"
    by (simp add: current_status_of_def example_defs)
  from get_sync_status_reconciles_processing_only [OF k1 k2 k4] k3
  have "snd (get_sync_status env0 ''doc-3'' ''alice'' world0) = world0
      \<and> ss_status (fst (get_sync_status env0 ''doc-3'' ''alice'' world0)) =
          Some (current_status_of ?doc3)"
    by blast
  then have d: "snd (get_sync_status env0 ''doc-3'' ''alice'' world0) = world0
      \<and> ss_status (fst (get_sync_status env0 ''doc-3'' ''alice'' world0)) = Some ''syncing''"
    by (simp only: k5)
  from h1 s l g5 b k1 d show ?thesis by blast
qed

text \<open>
  Claim C7 as stated fails on a status that is neither terminal nor 'processing': for
  bob's document in 'creating\_knowledge\_base' the status is answered, nothing is invoked
  and the world is unchanged.
\<close>

theorem get_sync_status_creating_counterexample:
  "find (\<lambda>d. document_id d = ''doc-4'') (documents_table world0) =
     Some (example_doc ''doc-4'' ''bob'' ''pending/bob/doc-4/a.pdf'' ''creating_knowledge_base'' None)
   \<and> get_sync_status env0 ''doc-4'' ''bob'' world0 =
       (\<lparr>ss_success = True, ss_status = Some ''creating_knowledge_base'', ss_message = [],
         ss_lastUpdated = Some []\<rparr>, world0)
   \<and> lambda_invocations world0 = []"
  by (simp add: get_sync_status_def doc_get_item_def current_status_of_def example_defs)

subsection \<open>Getting the Knowledge Base of a user who has one\<close>

text \<open>
  Claim C1, as the code has it. The user's record is there and holds a
  \<open>knowledge_base_id\<close>; on each of two calls in sequence the read of the record does not
  raise and the provider confirms the Knowledge Base. Then \<^verbatim>\<open>get_or_create_user_kb\<close>
  answers the record both times (the same \<open>knowledge_base_id\<close>) and neither call creates or
  changes anything: the world after both calls is the world before them. The two calls may
  run in different environments.
\<close>

theorem get_or_create_user_kb_existing:
  assumes "find (\<lambda>i. kb_user_id i = Some uid) (user_kb_table w) = Some kb"
      and "kb_knowledge_base_id kb = Some kb_id"
      and "fault e1 (KbGetItem uid) = None"
      and "verify_kb_exists e1 kb_id w"
      and "fault e2 (KbGetItem uid) = None"
      and "verify_kb_exists e2 kb_id w"
  shows "get_or_create_user_kb e1 uid w = (Inr kb, w)
       \<and> get_or_create_user_kb e2 uid (snd (get_or_create_user_kb e1 uid w)) = (Inr kb, w)"
proof -
  have a: "get_or_create_user_kb e1 uid w = (Inr kb, w)"
    using assms(1-4)
    by (simp add: get_or_create_user_kb_def get_user_kb_from_db_def kb_get_item_def Let_def)
  have b: "get_or_create_user_kb e2 uid w = (Inr kb, w)"
    using assms(1,2,5,6)
    by (simp add: get_or_create_user_kb_def get_user_kb_from_db_def kb_get_item_def Let_def)
  from a b show ?thesis by simp
qed

theorem get_or_create_user_kb_existing_witness:
  "find (\<lambda>i. kb_user_id i = Some ''alice'') (user_kb_table world0) = Some alice_kb
   \<and> verify_kb_exists env0 ''KB1'' world0
   \<and> verify_kb_exists (env_failing (DocScan ''job-1'')) ''KB1'' world0
   \<and> get_or_create_user_kb env0 ''alice'' world0 = (Inr alice_kb, world0)
   \<and> get_or_create_user_kb (env_failing (DocScan ''job-1'')) ''alice''
        (snd (get_or_create_user_kb env0 ''alice'' world0)) = (Inr alice_kb, world0)
   \<and> kb_knowledge_base_id alice_kb = Some ''KB1''"
proof -
  let ?e2 = "env_failing (DocScan ''job-1'')"
  have h1: "find (\<lambda>i. kb_user_id i = Some ''alice'') (user_kb_table world0) = Some alice_kb"
    by (simp add: example_defs)
  have h2: "kb_knowledge_base_id alice_kb = Some ''KB1''" by (simp add: example_defs)
  have h3: "fault env0 (KbGetItem ''alice'') = None" by (simp add: example_defs)
  have h4: "verify_kb_exists env0 ''KB1'' world0"
    by (simp add: verify_kb_exists_def get_knowledge_base_def example_defs)
  have h5: "fault ?e2 (KbGetItem ''alice'') = None" by (simp add: example_defs)
  have h6: "verify_kb_exists ?e2 ''KB1'' world0"
    by (simp add: verify_kb_exists_def get_knowledge_base_def example_defs)
  from get_or_create_user_kb_existing [OF h1 h2 h3 h4 h5 h6] h1 h2 h4 h6 show ?thesis by blast
qed

lemma str_nat_time0: "str_nat 1735689600 = ''1735689600''"
  by (simp add: str_nat.simps)

text \<open>
  Claim C1 as stated fails when the read of the record raises on the second call:
  \<^verbatim>\<open>_get_user_kb_from_db\<close> answers None for it, and although alice's record is in the table
  and the provider confirms KB1, the second call creates the Knowledge Base KB2, puts its
  record in the place of the old one and answers KB2.
\<close>

theorem get_or_create_user_kb_unread_record_counterexample:
  "find (\<lambda>i. kb_user_id i = Some ''alice'') (user_kb_table world0) = Some alice_kb
   \<and> verify_kb_exists env0 ''KB1'' world0
   \<and> verify_kb_exists (env_failing (KbGetItem ''alice'')) ''KB1'' world0
   \<and> get_or_create_user_kb env0 ''alice'' world0 = (Inr alice_kb, world0)
   \<and> map_sum id kb_knowledge_base_id
        (fst (get_or_create_user_kb (env_failing (KbGetItem ''alice'')) ''alice''
                (snd (get_or_create_user_kb env0 ''alice'' world0)))) =
       Inr (Some ''KB2'')
   \<and> knowledge_bases
        (snd (get_or_create_user_kb (env_failing (KbGetItem ''alice'')) ''alice''
                (snd (get_or_create_user_kb env0 ''alice'' world0)))) =
       [(''KB1'', ''ai-ppt-kb-a1b2c3d4-1''), (''KB2'', ''ai-ppt-kb-a1b2c3d4-1735689600'')]
   \<and> map kb_knowledge_base_id
        (user_kb_table
           (snd (get_or_create_user_kb (env_failing (KbGetItem ''alice'')) ''alice''
                   (snd (get_or_create_user_kb env0 ''alice'' world0))))) =
       [Some ''KB2'']"
proof -
  have a: "get_or_create_user_kb env0 ''alice'' world0 = (Inr alice_kb, world0)"
    by (simp add: get_or_create_user_kb_def get_user_kb_from_db_def kb_get_item_def
        verify_kb_exists_def get_knowledge_base_def Let_def example_defs)
  show ?thesis
    unfolding a snd_conv
    by (simp add: get_or_create_user_kb_def get_user_kb_from_db_def kb_get_item_def
        verify_kb_exists_def get_knowledge_base_def create_user_kb_def create_user_kb_body_def
        create_vector_bucket_def create_index_def create_knowledge_base_def
        create_data_source_def kb_put_item_def table_put_def process_pending_documents_def
        s3_list_objects_v2_def startswith_def logger_error_def empty_user_kb_def Let_def
        example_defs str_nat_time0)
qed

subsection \<open>The fast path of an upload\<close>

lemma get_existing_user_kb_verified:
  assumes "find (\<lambda>i. kb_user_id i = Some uid) (user_kb_table w) = Some kb"
      and "kb_knowledge_base_id kb = Some kb_id"
      and "fault e (KbGetItem uid) = None"
      and "verify_kb_exists e kb_id w"
  shows "get_existing_user_kb e uid w = (Some kb, w)"
  using assms
  by (simp add: get_existing_user_kb_def kb_get_item_def dp_verify_kb_exists_def
      verify_kb_exists_def Let_def split: sum.splits)

text \<open>
  Claim C8, as the code has it. On the fast path: the user's record is read (the read does
  not raise) and holds a \<open>knowledge_base_id\<close>, a \<open>data_source_id\<close> and a \<open>user_hash\<close>, the
  provider confirms the Knowledge Base, and the put of the file, the put of the document's
  item and the update of the document's item do not raise. When \<^verbatim>\<open>start_ingestion_job\<close>
  then raises \<open>x\<close>, the document's item ends with \<open>sync_status = 'failed'\<close> and
  \<open>error_message = str(x)\<close>, without a job id, no job is added, and \<^verbatim>\<open>process_document\<close>
  still answers success, with the new document id and the status 'processing'.
\<close>

theorem process_document_ingestion_trigger_fails:
  assumes kb: "find (\<lambda>i. kb_user_id i = Some uid) (user_kb_table w) = Some kb"
      and ids: "kb_knowledge_base_id kb = Some kb_id" "kb_data_source_id kb = Some ds_id"
               "user_hash kb = Some uhash"
      and get: "fault e (KbGetItem uid) = None"
      and verified: "verify_kb_exists e kb_id w"
      and stores: "fault e (S3PutObject (''docs/'' @ uhash @ ''/'' @ uuid4 e @ ''/'' @ fname)) = None"
                  "fault e (DocPutItem (uuid4 e)) = None"
                  "fault e (DocUpdateItem (uuid4 e)) = None"
      and start_fails: "fault e (StartIngestionJob kb_id ds_id) = Some x"
  shows "ur_success (fst (process_document e pdf_content fname uid w))
       \<and> ur_documentId (fst (process_document e pdf_content fname uid w)) = Some (uuid4 e)
       \<and> ur_sync_status (fst (process_document e pdf_content fname uid w)) = Some ''processing''
       \<and> (\<exists>d. find (\<lambda>d. document_id d = uuid4 e)
                  (documents_table (snd (process_document e pdf_content fname uid w))) = Some d
              \<and> sync_status d = Some ''failed''
              \<and> error_message d = Some (str_exn x)
              \<and> ingestion_job_id d = None)
       \<and> ingestion_jobs (snd (process_document e pdf_content fname uid w)) = ingestion_jobs w"
proof -
  let ?did = "uuid4 e"
  let ?key = "''docs/'' @ uhash @ ''/'' @ ?did @ ''/'' @ fname"
  let ?meta = "(empty_document ?did)
                 \<lparr>user_id := Some uid, s3_key := Some ?key, filename := Some fname,
                  file_size := Some (length pdf_content),
                  content_type := Some (get_content_type fname),
                  knowledge_base_id := Some kb_id, data_source_id := Some ds_id,
                  upload_date := Some (utcnow e), sync_status := Some ''uploaded'',
                  processing_attempts := Some 0, last_modified := Some (utcnow e)\<rparr>"
  let ?f = "\<lambda>d. d\<lparr>sync_status := Some ''failed'', error_message := Some (str_exn x),
                      last_modified := Some (utcnow e)\<rparr>"
  let ?w1 = "w\<lparr>documents_bucket := table_put fst
               (?key, \<lparr>body = pdf_content, ContentType = get_content_type fname,
                        Metadata = upload_metadata e uid ?did fname\<rparr>) (documents_bucket w)\<rparr>"
  let ?w2 = "?w1\<lparr>documents_table := table_put document_id ?meta (documents_table w)\<rparr>"
  let ?w3 = "?w2\<lparr>start_ingestion_job_calls :=
                    start_ingestion_job_calls w @ [(kb_id, ds_id, ''Ingestion for document '' @ ?did)]\<rparr>"
  let ?w4 = "logger_error (''Failed to trigger KB ingestion: '' @ str_exn x) ?w3"
  let ?w5 = "?w4\<lparr>documents_table :=
                    table_update document_id ?did (empty_document ?did) ?f (documents_table ?w4)\<rparr>"
  have t: "trigger_kb_ingestion e kb ?did ?w2 = (Inr (), ?w5)"
    using ids stores start_fails
    by (simp add: trigger_kb_ingestion_def start_ingestion_job_def doc_update_item_def Let_def)
  have p: "process_with_existing_kb e pdf_content fname uid ?did kb w =
             (Inr \<lparr>ur_success = True, ur_documentId = Some ?did, ur_s3_key = Some ?key,
                   ur_knowledge_base_id = Some kb_id, ur_sync_status = Some ''processing'',
                   ur_message = ''Document '' @ fname @ '' uploaded and processing started'',
                   ur_isFirstUpload = None, ur_estimatedTime = None\<rparr>, ?w5)"
    using ids stores t
    by (simp add: process_with_existing_kb_def s3_put_object_def doc_put_item_def Let_def
        empty_document_def)
  have r: "process_document e pdf_content fname uid w =
             (\<lparr>ur_success = True, ur_documentId = Some ?did, ur_s3_key = Some ?key,
               ur_knowledge_base_id = Some kb_id, ur_sync_status = Some ''processing'',
               ur_message = ''Document '' @ fname @ '' uploaded and processing started'',
               ur_isFirstUpload = None, ur_estimatedTime = None\<rparr>, ?w5)"
    using get_existing_user_kb_verified [OF kb ids(1) get verified] p
    by (simp add: process_document_def Let_def)
  have k: "document_id ?meta = ?did" by (simp add: empty_document_def)
  have f1: "find (\<lambda>d. document_id d = ?did) (table_put document_id ?meta (documents_table w)) = Some ?meta"
    using find_table_put [of document_id ?meta "documents_table w"] by (simp only: k)
  have f2: "find (\<lambda>d. document_id d = ?did) (documents_table ?w5) = Some (?f ?meta)"
    using find_table_update [OF f1, of ?f "empty_document ?did"]
    by (simp add: logger_error_def)
  have s: "snd (process_document e pdf_content fname uid w) = ?w5"
    by (simp only: r snd_conv)
  have d: "find (\<lambda>d. document_id d = ?did)
             (documents_table (snd (process_document e pdf_content fname uid w))) = Some (?f ?meta)"
    by (simp only: s f2)
  have "sync_status (?f ?meta) = Some ''failed'' \<and> error_message (?f ?meta) = Some (str_exn x)
      \<and> ingestion_job_id (?f ?meta) = None"
    by (simp add: empty_document_def)
  with d have ex: "\<exists>d. find (\<lambda>d. document_id d = ?did)
                  (documents_table (snd (process_document e pdf_content fname uid w))) = Some d
              \<and> sync_status d = Some ''failed''
              \<and> error_message d = Some (str_exn x)
              \<and> ingestion_job_id d = None"
    by blast
  have j: "ingestion_jobs (snd (process_document e pdf_content fname uid w)) = ingestion_jobs w"
    unfolding s by (simp add: logger_error_def)
  have u: "ur_success (fst (process_document e pdf_content fname uid w))
       \<and> ur_documentId (fst (process_document e pdf_content fname uid w)) = Some (uuid4 e)
       \<and> ur_sync_status (fst (process_document e pdf_content fname uid w)) = Some ''processing''"
    unfolding r by simp
  from u ex j show ?thesis by blast
qed


theorem process_document_ingestion_trigger_fails_witness:
  "find (\<lambda>i. kb_user_id i = Some ''alice'') (user_kb_table world0) = Some alice_kb
   \<and> verify_kb_exists (env_failing (StartIngestionJob ''KB1'' ''DS1'')) ''KB1'' world0
   \<and> fault (env_failing (StartIngestionJob ''KB1'' ''DS1'')) (StartIngestionJob ''KB1'' ''DS1'') =
       Some ThrottlingException
   \<and> ur_success (fst (process_document (env_failing (StartIngestionJob ''KB1'' ''DS1''))
                         ''hello'' ''notes.txt'' ''alice'' world0))
   \<and> ur_sync_status (fst (process_document (env_failing (StartIngestionJob ''KB1'' ''DS1''))
                         ''hello'' ''notes.txt'' ''alice'' world0)) = Some ''processing''
   \<and> (\<exists>d. find (\<lambda>d. document_id d = ''doc-9'')
              (documents_table (snd (process_document (env_failing (StartIngestionJob ''KB1'' ''DS1''))
                         ''hello'' ''notes.txt'' ''alice'' world0))) = Some d
          \<and> sync_status d = Some ''failed''
          \<and> error_message d = Some ''Rate exceeded'')"
proof -
  let ?e = "env_failing (StartIngestionJob ''KB1'' ''DS1'')"
  have h1: "find (\<lambda>i. kb_user_id i = Some ''alice'') (user_kb_table world0) = Some alice_kb"
    by (simp add: example_defs)
  have h2: "kb_knowledge_base_id alice_kb = Some ''KB1''" by (simp add: example_defs)
  have h3: "kb_data_source_id alice_kb = Some ''DS1''" by (simp add: example_defs)
  have h4: "user_hash alice_kb = Some ''a1b2c3d4''" by (simp add: example_defs)
  have h5: "fault ?e (KbGetItem ''alice'') = None" by (simp add: example_defs)
  have h6: "verify_kb_exists ?e ''KB1'' world0"
    by (simp add: verify_kb_exists_def get_knowledge_base_def example_defs)
  have u: "uuid4 ?e = ''doc-9''" by (simp add: example_defs)
  have h7: "fault ?e (S3PutObject (''docs/'' @ ''a1b2c3d4'' @ ''/'' @ uuid4 ?e @ ''/'' @ ''notes.txt'')) = None"
    by (simp add: example_defs)
  have h8: "fault ?e (DocPutItem (uuid4 ?e)) = None" by (simp add: example_defs)
  have h9: "fault ?e (DocUpdateItem (uuid4 ?e)) = None" by (simp add: example_defs)
  have h10: "fault ?e (StartIngestionJob ''KB1'' ''DS1'') = Some ThrottlingException"
    by (simp add: example_defs)
  have m: "str_exn ThrottlingException = ''Rate exceeded''"
    by (simp add: str_exn_def ThrottlingException_def)
  from process_document_ingestion_trigger_fails [OF h1 h2 h3 h4 h5 h6 h7 h8 h9 h10, of "''hello''"]
  have "ur_success (fst (process_document ?e ''hello'' ''notes.txt'' ''alice'' world0))
   \<and> ur_sync_status (fst (process_document ?e ''hello'' ''notes.txt'' ''alice'' world0)) = Some ''processing''
   \<and> (\<exists>d. find (\<lambda>d. document_id d = ''doc-9'')
              (documents_table (snd (process_document ?e ''hello'' ''notes.txt'' ''alice'' world0))) = Some d
          \<and> sync_status d = Some ''failed''
          \<and> error_message d = Some ''Rate exceeded'')"
    unfolding u m by blast
  with h1 h6 h10 show ?thesis by blast
qed

text \<open>
  Claim C8 as stated fails when the update that is to write 'failed' raises too: the
  handler of \<^verbatim>\<open>_trigger_kb_ingestion\<close> does not protect it, the exception reaches
  \<^verbatim>\<open>process_document\<close>, which answers a failure, and the document's item stays
  'uploaded' with no error recorded.
\<close>

theorem process_document_failed_status_not_written_counterexample:
  "find (\<lambda>i. kb_user_id i = Some ''alice'') (user_kb_table world0) = Some alice_kb
   \<and> verify_kb_exists
        (env_failing2 (StartIngestionJob ''KB1'' ''DS1'') (DocUpdateItem ''doc-9'')) ''KB1'' world0
   \<and> fault (env_failing2 (StartIngestionJob ''KB1'' ''DS1'') (DocUpdateItem ''doc-9''))
        (StartIngestionJob ''KB1'' ''DS1'') = Some ThrottlingException
   \<and> fst (process_document
            (env_failing2 (StartIngestionJob ''KB1'' ''DS1'') (DocUpdateItem ''doc-9''))
            ''hello'' ''notes.txt'' ''alice'' world0) =
       \<lparr>ur_success = False, ur_documentId = None, ur_s3_key = None,
        ur_knowledge_base_id = None, ur_sync_status = None,
        ur_message = ''Document processing failed: Rate exceeded'',
        ur_isFirstUpload = None, ur_estimatedTime = None\<rparr>
   \<and> map (\<lambda>d. (document_id d, sync_status d, error_message d))
        (documents_table
           (snd (process_document
                   (env_failing2 (StartIngestionJob ''KB1'' ''DS1'') (DocUpdateItem ''doc-9''))
                   ''hello'' ''notes.txt'' ''alice'' world0))) =
       [(''doc-1'', Some ''processing'', None), (''doc-2'', Some ''processing'', None),
        (''doc-3'', Some ''syncing'', None), (''doc-4'', Some ''creating_knowledge_base'', None),
        (''doc-9'', Some ''uploaded'', None)]"
  by (simp add: process_document_def get_existing_user_kb_def kb_get_item_def
      dp_verify_kb_exists_def verify_kb_exists_def get_knowledge_base_def
      process_with_existing_kb_def s3_put_object_def doc_put_item_def table_put_def
      trigger_kb_ingestion_def start_ingestion_job_def doc_update_item_def logger_error_def
      str_exn_def env_failing2_def Let_def example_defs)

subsection \<open>What the reconciler leaves alone\<close>

lemma same_but_documents_and_log_refl [simp]: "same_but_documents_and_log w w"
  by (simp add: same_but_documents_and_log_def)

lemma same_but_documents_and_log_trans:
  "same_but_documents_and_log w w1 \<Longrightarrow> same_but_documents_and_log w1 w2 \<Longrightarrow>
   same_but_documents_and_log w w2"
  by (simp add: same_but_documents_and_log_def)

lemma same_but_documents_and_log_logger_error [simp]:
  "same_but_documents_and_log w (logger_error m w') = same_but_documents_and_log w w'"
  by (simp add: same_but_documents_and_log_def logger_error_def)

lemma doc_update_item_frame:
  "doc_update_item e k f w = Inr w' \<Longrightarrow> same_but_documents_and_log w w'"
  by (auto simp: doc_update_item_def same_but_documents_and_log_def split: option.splits)

lemma complete_items_frame:
  "same_but_documents_and_log w (snd (snd (complete_items e items n w)))"
proof (induction items arbitrary: n w)
  case Nil
  show ?case by simp
next
  case (Cons item items)
  show ?case
  proof (cases "doc_update_item e (document_id item) (set_completed e) w")
    case (Inl x)
    then show ?thesis by simp
  next
    case (Inr w1)
    from doc_update_item_frame [OF Inr] Cons.IH [of w1 "n + 1"]
    have "same_but_documents_and_log w (snd (snd (complete_items e items (n + 1) w1)))"
      by (rule same_but_documents_and_log_trans)
    with Inr show ?thesis by simp
  qed
qed

lemma fail_items_frame:
  "same_but_documents_and_log w (snd (fail_items e items w))"
proof (induction items arbitrary: w)
  case Nil
  show ?case by simp
next
  case (Cons item items)
  show ?case
  proof (cases "doc_update_item e (document_id item) (set_failed e) w")
    case (Inl x)
    then show ?thesis by simp
  next
    case (Inr w1)
    from doc_update_item_frame [OF Inr] Cons.IH [of w1]
    have "same_but_documents_and_log w (snd (fail_items e items w1))"
      by (rule same_but_documents_and_log_trans)
    with Inr show ?thesis by simp
  qed
qed

lemma check_job_frame:
  "same_but_documents_and_log w (snd (check_job e job n w))"
proof (cases "job_status job = ''COMPLETE''")
  case True
  show ?thesis
  proof (cases "doc_scan e (ingestionJobId job) [''processing'', ''syncing''] w")
    case (Inl x)
    with True show ?thesis by (simp add: check_job_def)
  next
    case (Inr items)
    obtain x n1 w1 where c: "complete_items e items n w = (x, n1, w1)"
      by (cases "complete_items e items n w")
    from complete_items_frame [of w e items n] c have "same_but_documents_and_log w w1" by simp
    with True Inr c show ?thesis by (cases x) (simp_all add: check_job_def)
  qed
next
  case False
  show ?thesis
  proof (cases "job_status job = ''FAILED''")
    case failed: True
    show ?thesis
    proof (cases "doc_scan e (ingestionJobId job) [''processing''] w")
      case (Inl x)
      with False failed show ?thesis by (simp add: check_job_def)
    next
      case (Inr items)
      obtain x w1 where c: "fail_items e items w = (x, w1)"
        by (cases "fail_items e items w")
      from fail_items_frame [of w e items] c have "same_but_documents_and_log w w1" by simp
      with False failed Inr c show ?thesis by (cases x) (simp_all add: check_job_def)
    qed
  next
    case other: False
    with False show ?thesis by (simp add: check_job_def)
  qed
qed

lemma check_jobs_frame:
  "same_but_documents_and_log w (snd (check_jobs e jobs n w))"
proof (induction jobs arbitrary: n w)
  case Nil
  show ?case by simp
next
  case (Cons job jobs)
  obtain n1 w1 where s: "check_job e job n w = (n1, w1)" by (cases "check_job e job n w")
  from check_job_frame [of w e job n] s have "same_but_documents_and_log w w1" by simp
  from same_but_documents_and_log_trans [OF this Cons.IH [of w1 n1]] s show ?case by simp
qed

lemma check_jobs_frameD:
  "check_jobs e jobs n w = (n1, w1) \<Longrightarrow> same_but_documents_and_log w w1"
  using check_jobs_frame [of w e jobs n] by simp

lemma check_ingestion_status_frame:
  "same_but_documents_and_log w (snd (check_ingestion_status e uid w))"
  by (auto simp: check_ingestion_status_def get_user_kb_from_db_def Let_def
      dest: check_jobs_frameD split: sum.splits prod.splits option.splits)

subsection \<open>The user Knowledge Base table under the document processor\<close>

lemma trigger_kb_ingestion_user_kb_table:
  "user_kb_table (snd (trigger_kb_ingestion e kb did w)) = user_kb_table w"
  by (auto simp: trigger_kb_ingestion_def start_ingestion_job_def doc_update_item_def
      logger_error_def Let_def split: option.splits sum.splits prod.splits)

lemma process_with_existing_kb_user_kb_table:
  "user_kb_table (snd (process_with_existing_kb e pdf_content fname uid did kb w)) = user_kb_table w"
proof -
  have t: "\<And>w'. user_kb_table (snd (trigger_kb_ingestion e kb did w')) = user_kb_table w'"
    by (rule trigger_kb_ingestion_user_kb_table)
  have "\<And>w' r w''. trigger_kb_ingestion e kb did w' = (r, w'') \<Longrightarrow> user_kb_table w'' = user_kb_table w'"
    using t by (metis snd_conv)
  then show ?thesis
    by (auto simp: process_with_existing_kb_def s3_put_object_def doc_put_item_def
        logger_error_def Let_def split: option.splits sum.splits prod.splits)
qed

lemma start_async_kb_creation_user_kb_table:
  "user_kb_table (snd (start_async_kb_creation e pdf_content fname uid did w)) = user_kb_table w"
  by (auto simp: start_async_kb_creation_def s3_put_object_def doc_put_item_def
      lambda_invoke_event_def logger_error_def Let_def split: option.splits sum.splits prod.splits)

lemma get_existing_user_kb_user_kb_table:
  "user_kb_table (snd (get_existing_user_kb e uid w)) = user_kb_table w
   \<or> user_kb_table (snd (get_existing_user_kb e uid w)) =
       table_delete kb_user_id (Some uid) (user_kb_table w)"
  by (auto simp: get_existing_user_kb_def kb_get_item_def kb_delete_item_def dp_verify_kb_exists_def
      logger_error_def logger_warning_def Let_def split: option.splits sum.splits prod.splits bool.splits)

lemma process_document_user_kb_table:
  "user_kb_table (snd (process_document e pdf_content fname uid w)) =
     user_kb_table (snd (get_existing_user_kb e uid w))"
proof -
  obtain k w1 where g: "get_existing_user_kb e uid w = (k, w1)"
    by (cases "get_existing_user_kb e uid w")
  show ?thesis
  proof (cases k)
    case None
    obtain r w2 where s: "start_async_kb_creation e pdf_content fname uid (uuid4 e) w1 = (r, w2)"
      by (cases "start_async_kb_creation e pdf_content fname uid (uuid4 e) w1")
    from start_async_kb_creation_user_kb_table [of e pdf_content fname uid "uuid4 e" w1] s
    have "user_kb_table w2 = user_kb_table w1" by simp
    with g None s show ?thesis
      by (cases r) (simp_all add: process_document_def Let_def logger_error_def)
  next
    case (Some kb)
    obtain r w2 where s: "process_with_existing_kb e pdf_content fname uid (uuid4 e) kb w1 = (r, w2)"
      by (cases "process_with_existing_kb e pdf_content fname uid (uuid4 e) kb w1")
    from process_with_existing_kb_user_kb_table [of e pdf_content fname uid "uuid4 e" kb w1] s
    have "user_kb_table w2 = user_kb_table w1" by simp
    with g Some s show ?thesis
      by (cases r) (simp_all add: process_document_def Let_def logger_error_def)
  qed
qed

lemma delete_document_user_kb_table:
  "user_kb_table (snd (delete_document e did uid w)) = user_kb_table w"
  by (auto simp: delete_document_def doc_get_item_def doc_delete_item_def logger_error_def
      delete_from_s3_frame sync_after_delete_frame Let_def split: option.splits sum.splits)

lemma get_sync_status_user_kb_table:
  "user_kb_table (snd (get_sync_status e did uid w)) = user_kb_table w"
proof -
  let ?w0 = "w\<lparr>lambda_invocations := lambda_invocations w @
                       [(''RequestResponse'',
                         \<lparr>operation = ''check_ingestion_status'', ev_user_id = uid,
                          ev_document_id = None, ev_filename = None, ev_temp_s3_key = None\<rparr>)]\<rparr>"
  have "user_kb_table (snd (check_ingestion_status e uid ?w0)) = user_kb_table w"
    using check_ingestion_status_frame [of ?w0 e uid]
    by (simp add: same_but_documents_and_log_def)
  then have "user_kb_table (snd (lambda_handler_check_ingestion_status e uid ?w0)) = user_kb_table w"
    by (cases "check_ingestion_status e uid ?w0")
       (simp add: lambda_handler_check_ingestion_status_def)
  then have "\<And>r w1. lambda_handler_check_ingestion_status e uid ?w0 = (r, w1) \<Longrightarrow>
                 user_kb_table w1 = user_kb_table w"
    by simp
  then show ?thesis
    by (auto simp: get_sync_status_def doc_get_item_def lambda_invoke_check_ingestion_status_def
        logger_error_def Let_def split: option.splits sum.splits prod.splits)
qed


lemma check_ingestion_status_user_kb_table:
  "user_kb_table (snd (check_ingestion_status e uid w)) = user_kb_table w"
  using check_ingestion_status_frame [of w e uid] by (simp add: same_but_documents_and_log_def)

text \<open>
  Claim C10. A fast-path upload (the user's record is there and its Knowledge Base is
  verified) leaves the user Knowledge Base table, and with it the user's
  \<open>document_count\<close>, as it was. No other operation of the document processor adds to a
  count either: an upload on any path leaves the table as it was or drops the user's stale
  record, and \<^verbatim>\<open>delete_document\<close>, \<^verbatim>\<open>get_sync_status\<close> and the reconciler leave the
  table as it was. The two writers of the count are \<open>create_and_process_steps\<close> and
  \<open>process_pending_documents\<close>, which end in \<open>kb_update_item_add\<close>.
\<close>

theorem fast_path_leaves_document_count:
  "(find (\<lambda>i. kb_user_id i = Some uid) (user_kb_table w) = Some kb
      \<and> kb_knowledge_base_id kb = Some kb_id
      \<and> fault e (KbGetItem uid) = None
      \<and> verify_kb_exists e kb_id w \<longrightarrow>
      user_kb_table (snd (process_document e pdf_content fname uid w)) = user_kb_table w
      \<and> find (\<lambda>i. kb_user_id i = Some uid)
            (user_kb_table (snd (process_document e pdf_content fname uid w))) = Some kb)
   \<and> (user_kb_table (snd (process_document e pdf_content fname uid w)) = user_kb_table w
        \<or> user_kb_table (snd (process_document e pdf_content fname uid w)) =
            table_delete kb_user_id (Some uid) (user_kb_table w))
   \<and> user_kb_table (snd (delete_document e did uid w)) = user_kb_table w
   \<and> user_kb_table (snd (get_sync_status e did uid w)) = user_kb_table w
   \<and> user_kb_table (snd (check_ingestion_status e uid w)) = user_kb_table w"
proof -
  have fast: "user_kb_table (snd (process_document e pdf_content fname uid w)) = user_kb_table w
      \<and> find (\<lambda>i. kb_user_id i = Some uid)
            (user_kb_table (snd (process_document e pdf_content fname uid w))) = Some kb"
    if h: "find (\<lambda>i. kb_user_id i = Some uid) (user_kb_table w) = Some kb"
          "kb_knowledge_base_id kb = Some kb_id" "fault e (KbGetItem uid) = None"
          "verify_kb_exists e kb_id w"
  proof -
    from get_existing_user_kb_verified [OF h]
    have "user_kb_table (snd (get_existing_user_kb e uid w)) = user_kb_table w" by simp
    then have "user_kb_table (snd (process_document e pdf_content fname uid w)) = user_kb_table w"
      by (simp only: process_document_user_kb_table)
    with h(1) show ?thesis by simp
  qed
  have any: "user_kb_table (snd (process_document e pdf_content fname uid w)) = user_kb_table w
        \<or> user_kb_table (snd (process_document e pdf_content fname uid w)) =
            table_delete kb_user_id (Some uid) (user_kb_table w)"
    using get_existing_user_kb_user_kb_table [of e uid w]
    by (simp only: process_document_user_kb_table)
  from fast any show ?thesis
    by (simp only: delete_document_user_kb_table get_sync_status_user_kb_table
        check_ingestion_status_user_kb_table) blast
qed

theorem fast_path_leaves_document_count_witness:
  "find (\<lambda>i. kb_user_id i = Some ''alice'') (user_kb_table world0) = Some alice_kb
   \<and> verify_kb_exists env0 ''KB1'' world0
   \<and> user_kb_table (snd (process_document env0 ''hello'' ''notes.txt'' ''alice'' world0)) =
       user_kb_table world0
   \<and> find (\<lambda>i. kb_user_id i = Some ''alice'')
        (user_kb_table (snd (process_document env0 ''hello'' ''notes.txt'' ''alice'' world0))) =
       Some alice_kb
   \<and> document_count alice_kb = Some 0"
proof -
  have h1: "find (\<lambda>i. kb_user_id i = Some ''alice'') (user_kb_table world0) = Some alice_kb"
    by (simp add: example_defs)
  have h2: "kb_knowledge_base_id alice_kb = Some ''KB1''" by (simp add: example_defs)
  have h3: "fault env0 (KbGetItem ''alice'') = None" by (simp add: example_defs)
  have h4: "verify_kb_exists env0 ''KB1'' world0"
    by (simp add: verify_kb_exists_def get_knowledge_base_def example_defs)
  have c: "document_count alice_kb = Some 0" by (simp add: example_defs)
  from fast_path_leaves_document_count
         [of "''alice''" world0 alice_kb "''KB1''" env0 "''hello''" "''notes.txt''"]
       h1 h2 h3 h4 c
  show ?thesis by blast
qed

subsection \<open>The pending-upload migrator\<close>

text \<open>
  Claim C4 at a concrete input. Two uploads of alice lie under \<open>pending/alice/\<close> and the
  copy of the first one raises. The loop goes on to the second one and moves it, one
  ingestion job is requested for the batch, and the user's \<open>document_count\<close> goes from 0
  to 2, the number of keys listed, although one document was migrated: doc-5 is still
  under its pending key and in 'creating\_knowledge\_base'. (The batch name given to
  \<^verbatim>\<open>_trigger_ingestion_job\<close> as a document id also makes \<^verbatim>\<open>update_item\<close> create an item
  of that id.)
\<close>

theorem process_pending_documents_counts_failed_item:
  "map fst (documents_bucket
      (process_pending_documents
         (env_failing (S3CopyObject ''pending/alice/doc-5/a.pdf'' ''docs/a1b2c3d4/doc-5/a.pdf''))
         ''alice'' alice_kb world_pending)) =
     [''pending/alice/doc-5/a.pdf'', ''docs/a1b2c3d4/doc-6/b.pdf'']
   \<and> map (\<lambda>d. (document_id d, s3_key d, sync_status d))
        (documents_table
          (process_pending_documents
             (env_failing (S3CopyObject ''pending/alice/doc-5/a.pdf'' ''docs/a1b2c3d4/doc-5/a.pdf''))
             ''alice'' alice_kb world_pending)) =
     [(''doc-5'', Some ''pending/alice/doc-5/a.pdf'', Some ''creating_knowledge_base''),
      (''doc-6'', Some ''docs/a1b2c3d4/doc-6/b.pdf'', Some ''ready_for_ingestion''),
      (''pending_documents_batch_1735689600'', None, None)]
   \<and> start_ingestion_job_calls
        (process_pending_documents
           (env_failing (S3CopyObject ''pending/alice/doc-5/a.pdf'' ''docs/a1b2c3d4/doc-5/a.pdf''))
           ''alice'' alice_kb world_pending) =
     [(''KB1'', ''DS1'', ''Ingestion job for document pending_documents_batch_1735689600'')]
   \<and> map document_count (user_kb_table world_pending) = [Some 0]
   \<and> map document_count
        (user_kb_table
          (process_pending_documents
             (env_failing (S3CopyObject ''pending/alice/doc-5/a.pdf'' ''docs/a1b2c3d4/doc-5/a.pdf''))
             ''alice'' alice_kb world_pending)) = [Some 2]"
  by (simp add: process_pending_documents_def process_pending_item_def s3_list_objects_v2_def
      s3_copy_object_def s3_delete_object_def doc_update_item_def trigger_ingestion_job_def
      start_ingestion_job_def kb_update_item_add_def add_document_count_def table_update_def
      table_put_def table_delete_def startswith_def logger_error_def str_exn_def
      world_pending_def empty_user_kb_def Let_def example_defs str_nat.simps)

subsection \<open>Updating one item of a table with distinct keys\<close>

lemma table_update_present:
  "k \<in> key ` set tbl \<Longrightarrow>
   table_update key k fresh f tbl = map (\<lambda>y. if key y = k then f y else y) tbl"
  by (auto simp: table_update_def list_ex_iff)

lemma map_key_table_update_present:
  assumes "k \<in> key ` set tbl" and "\<And>y. key (f y) = key y"
  shows "map key (table_update key k fresh f tbl) = map key tbl"
  using assms by (simp add: table_update_present)

lemma others_stay_table_update:
  assumes "y \<in> set tbl" and "key y \<noteq> k" and "k \<in> key ` set tbl"
  shows "y \<in> set (table_update key k fresh f tbl)"
proof -
  have "(if key y = k then f y else y) \<in> set (map (\<lambda>y. if key y = k then f y else y) tbl)"
    using assms(1) by (simp only: set_map) (rule imageI)
  with assms(2,3) show ?thesis by (simp add: table_update_present)
qed

lemma filter_length_update_one:
  assumes "distinct (map key tbl)" and "x \<in> set tbl"
  shows "length (filter P (map (\<lambda>y. if key y = key x then f y else y) tbl)) + (if P x then 1 else 0) =
         length (filter P tbl) + (if P (f x) then 1 else 0)"
  using assms
proof (induction tbl)
  case Nil
  then show ?case by simp
next
  case (Cons y tbl)
  show ?case
  proof (cases "y = x")
    case True
    from Cons.prems(1) True have "key x \<notin> key ` set tbl" by simp
    then have "\<forall>z \<in> set tbl. key z \<noteq> key x" by (metis imageI)
    then have "map (\<lambda>y. if key y = key x then f y else y) tbl = tbl"
      by (simp add: map_idI)
    with True show ?thesis by simp
  next
    case False
    with Cons.prems have x: "x \<in> set tbl" by simp
    then have "key x \<in> key ` set tbl" by (rule imageI)
    with Cons.prems(1) have "key y \<noteq> key x" by auto
    moreover from Cons.prems(1) have "distinct (map key tbl)" by simp
    ultimately show ?thesis using Cons.IH x by simp
  qed
qed


subsection \<open>The count the reconciler returns\<close>

lemma doc_update_item_table:
  "doc_update_item e k f w = Inr w' \<Longrightarrow>
   documents_table w' = table_update document_id k (empty_document k) f (documents_table w)"
  by (auto simp: doc_update_item_def split: option.splits)

lemma document_id_set_completed [simp]: "document_id (set_completed e d) = document_id d"
  by (simp add: set_completed_def)

lemma document_id_set_failed [simp]: "document_id (set_failed e d) = document_id d"
  by (simp add: set_failed_def)

lemma sync_status_set_completed [simp]: "sync_status (set_completed e d) = Some ''completed''"
  by (simp add: set_completed_def)

lemma sync_status_set_failed [simp]: "sync_status (set_failed e d) = Some ''failed''"
  by (simp add: set_failed_def)

lemma ingestion_job_id_set [simp]:
  "ingestion_job_id (set_completed e d) = ingestion_job_id d"
  "ingestion_job_id (set_failed e d) = ingestion_job_id d"
  by (simp_all add: set_completed_def set_failed_def)

lemma completed_count_update:
  assumes "distinct (map document_id tbl)" and "x \<in> set tbl"
      and "sync_status x \<noteq> Some ''completed''"
  shows "completed_count (table_update document_id (document_id x) fresh (set_completed e) tbl) =
           Suc (completed_count tbl)"
    and "completed_count (table_update document_id (document_id x) fresh (set_failed e) tbl) =
           completed_count tbl"
proof -
  from assms(2) have k: "document_id x \<in> document_id ` set tbl" by (rule imageI)
  from filter_length_update_one [OF assms(1,2), of "\<lambda>d. sync_status d = Some ''completed''" "set_completed e"]
       assms(3) k
  show "completed_count (table_update document_id (document_id x) fresh (set_completed e) tbl) =
           Suc (completed_count tbl)"
    by (simp add: completed_count_def table_update_present)
  from filter_length_update_one [OF assms(1,2), of "\<lambda>d. sync_status d = Some ''completed''" "set_failed e"]
       assms(3) k
  show "completed_count (table_update document_id (document_id x) fresh (set_failed e) tbl) =
           completed_count tbl"
    by (simp add: completed_count_def table_update_present)
qed

lemma complete_items_count:
  assumes "distinct (map document_id (documents_table w))"
      and "set items \<subseteq> set (documents_table w)"
      and "distinct (map document_id items)"
      and "\<forall>i \<in> set items. sync_status i \<noteq> Some ''completed''"
      and "complete_items e items n w = (x, n', w')"
  shows "completed_count (documents_table w') + n = completed_count (documents_table w) + n'
       \<and> map document_id (documents_table w') = map document_id (documents_table w)"
  using assms
proof (induction items arbitrary: n w)
  case Nil
  then show ?case by simp
next
  case (Cons item items)
  show ?case
  proof (cases "doc_update_item e (document_id item) (set_completed e) w")
    case (Inl y)
    with Cons.prems(5) show ?thesis by simp
  next
    case (Inr w1)
    let ?T = "documents_table w"
    let ?T1 = "documents_table w1"
    from Cons.prems(2) have item: "item \<in> set ?T" by simp
    then have k: "document_id item \<in> document_id ` set ?T" by (rule imageI)
    have T1: "?T1 = table_update document_id (document_id item) (empty_document (document_id item))
                     (set_completed e) ?T"
      by (rule doc_update_item_table [OF Inr])
    have keys: "map document_id ?T1 = map document_id ?T"
      unfolding T1 by (rule map_key_table_update_present [OF k]) simp
    from Cons.prems(4) have nc: "sync_status item \<noteq> Some ''completed''" by simp
    have cnt: "completed_count ?T1 = Suc (completed_count ?T)"
      unfolding T1 by (rule completed_count_update(1) [OF Cons.prems(1) item nc])
    have sub: "set items \<subseteq> set ?T1"
    proof
      fix i assume i: "i \<in> set items"
      from Cons.prems(3) have "document_id item \<notin> document_id ` set items" by simp
      with i have "document_id i \<noteq> document_id item" by (metis imageI)
      moreover from i Cons.prems(2) have "i \<in> set ?T" by auto
      ultimately show "i \<in> set ?T1" unfolding T1 using k by (intro others_stay_table_update)
    qed
    from Cons.prems(1) keys have d1: "distinct (map document_id ?T1)" by simp
    from Cons.prems(3) have d2: "distinct (map document_id items)" by simp
    from Cons.prems(4) have s2: "\<forall>i \<in> set items. sync_status i \<noteq> Some ''completed''" by simp
    from Cons.prems(5) Inr have r: "complete_items e items (n + 1) w1 = (x, n', w')" by simp
    from Cons.IH [OF d1 sub d2 s2 r] cnt keys show ?thesis by simp
  qed
qed

lemma fail_items_count:
  assumes "distinct (map document_id (documents_table w))"
      and "set items \<subseteq> set (documents_table w)"
      and "distinct (map document_id items)"
      and "\<forall>i \<in> set items. sync_status i \<noteq> Some ''completed''"
      and "fail_items e items w = (x, w')"
  shows "completed_count (documents_table w') = completed_count (documents_table w)
       \<and> map document_id (documents_table w') = map document_id (documents_table w)"
  using assms
proof (induction items arbitrary: w)
  case Nil
  then show ?case by simp
next
  case (Cons item items)
  show ?case
  proof (cases "doc_update_item e (document_id item) (set_failed e) w")
    case (Inl y)
    with Cons.prems(5) show ?thesis by simp
  next
    case (Inr w1)
    let ?T = "documents_table w"
    let ?T1 = "documents_table w1"
    from Cons.prems(2) have item: "item \<in> set ?T" by simp
    then have k: "document_id item \<in> document_id ` set ?T" by (rule imageI)
    have T1: "?T1 = table_update document_id (document_id item) (empty_document (document_id item))
                     (set_failed e) ?T"
      by (rule doc_update_item_table [OF Inr])
    have keys: "map document_id ?T1 = map document_id ?T"
      unfolding T1 by (rule map_key_table_update_present [OF k]) simp
    from Cons.prems(4) have nc: "sync_status item \<noteq> Some ''completed''" by simp
    have cnt: "completed_count ?T1 = completed_count ?T"
      unfolding T1 by (rule completed_count_update(2) [OF Cons.prems(1) item nc])
    have sub: "set items \<subseteq> set ?T1"
    proof
      fix i assume i: "i \<in> set items"
      from Cons.prems(3) have "document_id item \<notin> document_id ` set items" by simp
      with i have "document_id i \<noteq> document_id item" by (metis imageI)
      moreover from i Cons.prems(2) have "i \<in> set ?T" by auto
      ultimately show "i \<in> set ?T1" unfolding T1 using k by (intro others_stay_table_update)
    qed
    from Cons.prems(1) keys have d1: "distinct (map document_id ?T1)" by simp
    from Cons.prems(3) have d2: "distinct (map document_id items)" by simp
    from Cons.prems(4) have s2: "\<forall>i \<in> set items. sync_status i \<noteq> Some ''completed''" by simp
    from Cons.prems(5) Inr have r: "fail_items e items w1 = (x, w')" by simp
    from Cons.IH [OF d1 sub d2 s2 r] cnt keys show ?thesis by simp
  qed
qed

lemma filter_expression_not_completed:
  "filter_expression jid [''processing'', ''syncing''] d \<Longrightarrow> sync_status d \<noteq> Some ''completed''"
  "filter_expression jid [''processing''] d \<Longrightarrow> sync_status d \<noteq> Some ''completed''"
  by (auto simp: filter_expression_def split: option.splits)

lemma documents_table_logger_error [simp]:
  "documents_table (logger_error m w) = documents_table w"
  by (simp add: logger_error_def)

lemma check_job_count:
  assumes "distinct (map document_id (documents_table w))"
      and "check_job e job n w = (n', w')"
  shows "completed_count (documents_table w') + n = completed_count (documents_table w) + n'
       \<and> map document_id (documents_table w') = map document_id (documents_table w)"
proof (cases "job_status job = ''COMPLETE''")
  case True
  show ?thesis
  proof (cases "doc_scan e (ingestionJobId job) [''processing'', ''syncing''] w")
    case (Inl x)
    with True assms(2) show ?thesis by (auto simp: check_job_def)
  next
    case (Inr items)
    then have items: "items = filter (filter_expression (ingestionJobId job) [''processing'', ''syncing''])
                                (documents_table w)"
      by (auto simp: doc_scan_def split: option.splits)
    obtain x n1 w1 where c: "complete_items e items n w = (x, n1, w1)"
      by (cases "complete_items e items n w")
    have "completed_count (documents_table w1) + n = completed_count (documents_table w) + n1
       \<and> map document_id (documents_table w1) = map document_id (documents_table w)"
    proof (rule complete_items_count [OF assms(1) _ _ _ c])
      show "set items \<subseteq> set (documents_table w)" unfolding items by auto
      show "distinct (map document_id items)"
        unfolding items using assms(1) by (rule distinct_map_filter)
      show "\<forall>i \<in> set items. sync_status i \<noteq> Some ''completed''"
        unfolding items by (auto dest: filter_expression_not_completed)
    qed
    with True Inr c assms(2) show ?thesis by (cases x) (auto simp: check_job_def)
  qed
next
  case False
  show ?thesis
  proof (cases "job_status job = ''FAILED''")
    case failed: True
    show ?thesis
    proof (cases "doc_scan e (ingestionJobId job) [''processing''] w")
      case (Inl x)
      with False failed assms(2) show ?thesis by (auto simp: check_job_def)
    next
      case (Inr items)
      then have items: "items = filter (filter_expression (ingestionJobId job) [''processing''])
                                  (documents_table w)"
        by (auto simp: doc_scan_def split: option.splits)
      obtain x w1 where c: "fail_items e items w = (x, w1)"
        by (cases "fail_items e items w")
      have "completed_count (documents_table w1) = completed_count (documents_table w)
         \<and> map document_id (documents_table w1) = map document_id (documents_table w)"
      proof (rule fail_items_count [OF assms(1) _ _ _ c])
        show "set items \<subseteq> set (documents_table w)" unfolding items by auto
        show "distinct (map document_id items)"
          unfolding items using assms(1) by (rule distinct_map_filter)
        show "\<forall>i \<in> set items. sync_status i \<noteq> Some ''completed''"
          unfolding items by (auto dest: filter_expression_not_completed)
      qed
      with False failed Inr c assms(2) show ?thesis by (cases x) (auto simp: check_job_def)
    qed
  next
    case other: False
    with False assms(2) show ?thesis by (auto simp: check_job_def)
  qed
qed

lemma check_jobs_count:
  assumes "distinct (map document_id (documents_table w))"
      and "check_jobs e jobs n w = (n', w')"
  shows "completed_count (documents_table w') + n = completed_count (documents_table w) + n'
       \<and> map document_id (documents_table w') = map document_id (documents_table w)"
  using assms
proof (induction jobs arbitrary: n w)
  case Nil
  then show ?case by simp
next
  case (Cons job jobs)
  obtain n1 w1 where s: "check_job e job n w = (n1, w1)" by (cases "check_job e job n w")
  from check_job_count [OF Cons.prems(1) s]
  have a1: "completed_count (documents_table w1) + n = completed_count (documents_table w) + n1"
    and a2: "map document_id (documents_table w1) = map document_id (documents_table w)"
    by blast+
  from Cons.prems(1) have d1: "distinct (map document_id (documents_table w1))"
    by (simp only: a2)
  from Cons.prems(2) s have r: "check_jobs e jobs n1 w1 = (n', w')" by simp
  from Cons.IH [OF d1 r]
  have b1: "completed_count (documents_table w') + n1 = completed_count (documents_table w1) + n'"
    and b2: "map document_id (documents_table w') = map document_id (documents_table w1)"
    by blast+
  from a1 b1 have "completed_count (documents_table w') + n = completed_count (documents_table w) + n'"
    by arith
  moreover from a2 b2 have "map document_id (documents_table w') = map document_id (documents_table w)"
    by (rule trans [rotated])
  ultimately show ?case by blast
qed

lemma get_user_kb_from_db_documents_table:
  "documents_table (snd (get_user_kb_from_db e uid w)) = documents_table w"
  by (cases "kb_get_item e uid w") (simp_all add: get_user_kb_from_db_def)

lemma check_ingestion_status_success:
  assumes "check_ingestion_status e uid w = (CheckSuccess n msg, w')"
  shows "\<exists>jobs w1. check_jobs e jobs 0 w1 = (n, w') \<and> documents_table w1 = documents_table w
           \<and> msg = ''Updated '' @ str_nat n @ '' document statuses''"
proof -
  obtain k w1 where g: "get_user_kb_from_db e uid w = (k, w1)"
    by (cases "get_user_kb_from_db e uid w")
  from get_user_kb_from_db_documents_table [of e uid w] g
  have t: "documents_table w1 = documents_table w" by simp
  show ?thesis
  proof (cases k)
    case None
    with assms g show ?thesis by (simp add: check_ingestion_status_def)
  next
    case (Some user_kb)
    show ?thesis
    proof (cases "kb_knowledge_base_id user_kb")
      case None
      with assms g Some show ?thesis by (simp add: check_ingestion_status_def)
    next
      case kb: (Some kb_id)
      show ?thesis
      proof (cases "kb_data_source_id user_kb")
        case None
        with assms g Some kb show ?thesis by (simp add: check_ingestion_status_def)
      next
        case ds: (Some ds_id)
        show ?thesis
        proof (cases "list_ingestion_jobs e kb_id ds_id w1")
          case (Inl x)
          with assms g Some kb ds show ?thesis by (simp add: check_ingestion_status_def)
        next
          case (Inr jobs)
          obtain n1 w2 where c: "check_jobs e jobs 0 w1 = (n1, w2)"
            by (cases "check_jobs e jobs 0 w1")
          with assms g Some kb ds Inr have "n1 = n \<and> w2 = w'
              \<and> msg = ''Updated '' @ str_nat n @ '' document statuses''"
            by (auto simp: check_ingestion_status_def)
          with c t show ?thesis by blast
        qed
      qed
    qed
  qed
qed

text \<open>
  Claim C9. When \<^verbatim>\<open>check_ingestion_status\<close> answers a count, the count is the number of
  documents that became 'completed' during the call: the number of 'completed' documents
  after the call is the number before it plus the count. Documents set to 'failed' are
  therefore not in it. This holds whatever the environment does (an update that raises
  ends the loop of its job before \<^verbatim>\<open>updated_count += 1\<close>); the document ids of a table
  are its primary keys, hence distinct.
\<close>

theorem updated_count_is_newly_completed:
  assumes "distinct (map document_id (documents_table w))"
      and "check_ingestion_status e uid w = (CheckSuccess n msg, w')"
  shows "completed_count (documents_table w') = completed_count (documents_table w) + n
       \<and> msg = ''Updated '' @ str_nat n @ '' document statuses''"
proof -
  from check_ingestion_status_success [OF assms(2)] obtain jobs w1 where
    j: "check_jobs e jobs 0 w1 = (n, w')" and t: "documents_table w1 = documents_table w"
    and m: "msg = ''Updated '' @ str_nat n @ '' document statuses''"
    by blast
  from assms(1) have "distinct (map document_id (documents_table w1))" by (simp only: t)
  from check_jobs_count [OF this j]
  have "completed_count (documents_table w') + 0 = completed_count (documents_table w1) + n"
    by blast
  then have "completed_count (documents_table w') = completed_count (documents_table w) + n"
    by (simp only: t add_0_right)
  with m show ?thesis by blast
qed


theorem updated_count_is_newly_completed_witness:
  "distinct (map document_id (documents_table world0))
   \<and> fst (check_ingestion_status env0 ''alice'' world0) =
       CheckSuccess 2 ''Updated 2 document statuses''
   \<and> completed_count (documents_table (snd (check_ingestion_status env0 ''alice'' world0))) =
       completed_count (documents_table world0) + 2
   \<and> map sync_status (documents_table world0) =
       [Some ''processing'', Some ''processing'', Some ''syncing'', Some ''creating_knowledge_base'']
   \<and> map sync_status (documents_table (snd (check_ingestion_status env0 ''alice'' world0))) =
       [Some ''completed'', Some ''failed'', Some ''completed'', Some ''creating_knowledge_base'']"
proof -
  let ?w' = "snd (check_ingestion_status env0 ''alice'' world0)"
  have h1: "distinct (map document_id (documents_table world0))"
    by (simp add: example_defs)
  note ev = check_ingestion_status_world0 [of world0, OF refl refl refl]
  have r: "check_ingestion_status env0 ''alice'' world0 =
             (CheckSuccess 2 ''Updated 2 document statuses'', ?w')"
    by (simp add: ev)
  from updated_count_is_newly_completed [OF h1 r]
  have c: "completed_count (documents_table ?w') = completed_count (documents_table world0) + 2"
    by blast
  have b: "map sync_status (documents_table world0) =
       [Some ''processing'', Some ''processing'', Some ''syncing'', Some ''creating_knowledge_base'']"
    by (simp add: example_defs)
  have a: "map sync_status (documents_table ?w') =
       [Some ''completed'', Some ''failed'', Some ''completed'', Some ''creating_knowledge_base'']"
    by (simp add: ev example_doc_def empty_document_def)
  have f: "fst (check_ingestion_status env0 ''alice'' world0) =
       CheckSuccess 2 ''Updated 2 document statuses''"
    by (simp add: ev)
  from h1 f c b a show ?thesis by blast
qed

subsection \<open>A second reconciliation finds nothing to do\<close>





subsection \<open>The reconciler when the documents table is reliable\<close>

lemma set_completed_idem [simp]: "set_completed e (set_completed e d) = set_completed e d"
  by (simp add: set_completed_def)

lemma set_failed_idem [simp]: "set_failed e (set_failed e d) = set_failed e d"
  by (simp add: set_failed_def)



















subsection \<open>What a FAILED job does to a document\<close>













end
